theory Spec2Isabelle
  imports Complex_Main "HOL-Library.Word"
begin

unbundle bit_operations_syntax

section \<open>Data model (types.ts)\<close>

text \<open>
  JavaScript numbers are modelled without rounding.  Sizes, angles, velocities, phases
  and the controls are reals.  Positions, which the Gaussian sample can make infinite
  or NaN, are values of \<open>jsnum\<close>: a real, plus or minus Infinity, or NaN, with the
  arithmetic and comparisons of the language on them.  Seeds are integers, as the
  interface documents them.
\<close>

datatype jsnum = Fin real | PosInf | NegInf | NaN

fun jsAdd :: "jsnum \<Rightarrow> jsnum \<Rightarrow> jsnum" where
  "jsAdd NaN b = NaN"
| "jsAdd a NaN = NaN"
| "jsAdd (Fin a) (Fin b) = Fin (a + b)"
| "jsAdd PosInf NegInf = NaN"
| "jsAdd NegInf PosInf = NaN"
| "jsAdd PosInf b = PosInf"
| "jsAdd a PosInf = PosInf"
| "jsAdd NegInf b = NegInf"
| "jsAdd a NegInf = NegInf"

definition jsNeg :: "jsnum \<Rightarrow> jsnum" where
  "jsNeg a = (case a of Fin r \<Rightarrow> Fin (- r) | PosInf \<Rightarrow> NegInf | NegInf \<Rightarrow> PosInf | NaN \<Rightarrow> NaN)"

definition jsSub :: "jsnum \<Rightarrow> jsnum \<Rightarrow> jsnum" where
  "jsSub a b = jsAdd a (jsNeg b)"

text \<open>An infinity times a real: NaN for zero, otherwise the infinity of the product's
  sign.\<close>

definition infTimes :: "bool \<Rightarrow> real \<Rightarrow> jsnum" where
  "infTimes positive r =
     (if r = 0 then NaN else if (0 < r) = positive then PosInf else NegInf)"

fun jsMul :: "jsnum \<Rightarrow> jsnum \<Rightarrow> jsnum" where
  "jsMul NaN b = NaN"
| "jsMul a NaN = NaN"
| "jsMul (Fin a) (Fin b) = Fin (a * b)"
| "jsMul PosInf (Fin b) = infTimes True b"
| "jsMul NegInf (Fin b) = infTimes False b"
| "jsMul (Fin a) PosInf = infTimes True a"
| "jsMul (Fin a) NegInf = infTimes False a"
| "jsMul PosInf PosInf = PosInf"
| "jsMul NegInf NegInf = PosInf"
| "jsMul PosInf NegInf = NegInf"
| "jsMul NegInf PosInf = NegInf"

text \<open>\<open>a < b\<close> and \<open>a <= b\<close>: false whenever an operand is NaN.\<close>

fun jsLess :: "jsnum \<Rightarrow> jsnum \<Rightarrow> bool" where
  "jsLess NaN b = False"
| "jsLess a NaN = False"
| "jsLess (Fin a) (Fin b) = (a < b)"
| "jsLess a NegInf = False"
| "jsLess PosInf b = False"
| "jsLess NegInf b = True"
| "jsLess a PosInf = True"

fun jsLeq :: "jsnum \<Rightarrow> jsnum \<Rightarrow> bool" where
  "jsLeq NaN b = False"
| "jsLeq a NaN = False"
| "jsLeq a b = (\<not> jsLess b a)"

text \<open>\<open>Math.max\<close> and \<open>Math.min\<close> of two numbers: NaN if either is.\<close>

fun jsMax :: "jsnum \<Rightarrow> jsnum \<Rightarrow> jsnum" where
  "jsMax NaN b = NaN"
| "jsMax a NaN = NaN"
| "jsMax a b = (if jsLess a b then b else a)"

fun jsMin :: "jsnum \<Rightarrow> jsnum \<Rightarrow> jsnum" where
  "jsMin NaN b = NaN"
| "jsMin a NaN = NaN"
| "jsMin a b = (if jsLess b a then b else a)"

text \<open>\<open>Math.log\<close> of a real, \<open>Math.sqrt\<close>, \<open>Math.cos\<close> and \<open>Math.sin\<close>.\<close>

definition jsLog :: "real \<Rightarrow> jsnum" where
  "jsLog u = (if u = 0 then NegInf else if u < 0 then NaN else Fin (ln u))"

definition jsSqrt :: "jsnum \<Rightarrow> jsnum" where
  "jsSqrt a =
     (case a of
        Fin r \<Rightarrow> (if r < 0 then NaN else Fin (sqrt r))
      | PosInf \<Rightarrow> PosInf
      | NegInf \<Rightarrow> NaN
      | NaN \<Rightarrow> NaN)"

definition jsCos :: "jsnum \<Rightarrow> jsnum" where
  "jsCos a = (case a of Fin r \<Rightarrow> Fin (cos r) | _ \<Rightarrow> NaN)"

definition jsSin :: "jsnum \<Rightarrow> jsnum" where
  "jsSin a = (case a of Fin r \<Rightarrow> Fin (sin r) | _ \<Rightarrow> NaN)"

datatype Role = Anchor | Accent | Texture

text \<open>\<open>ShapeType\<close> and \<open>PathShapeType\<close> are the same union of five string literals.\<close>

datatype ShapeType = circle | rectangle | line | semicircle | triangle

type_synonym PathShapeType = ShapeType

datatype AnimationMode = Full | Stationary | Drift | Pulse

text \<open>The closed variant over the five shape kinds, with the kind-specific fields.\<close>

datatype Kind =
    Circle real \<comment> \<open>radius\<close>
  | Rectangle real real "real option" \<comment> \<open>width, height, cornerRadius\<close>
  | Line jsnum jsnum \<comment> \<open>x2, y2\<close>
  | Semicircle real \<comment> \<open>radius\<close>
  | Triangle real \<comment> \<open>size\<close>

fun shapeType :: "Kind \<Rightarrow> ShapeType" where
  "shapeType (Circle _) = circle"
| "shapeType (Rectangle _ _ _) = rectangle"
| "shapeType (Line _ _) = line"
| "shapeType (Semicircle _) = semicircle"
| "shapeType (Triangle _) = triangle"

record Shape =
  kind :: Kind
  shape_x :: jsnum
  shape_y :: jsnum
  rotation :: real
  fill :: "string option"
  stroke :: "string option"
  strokeWidth :: "real option"

record RoleShape = Shape +
  role :: Role

record Controls =
  structure_ctl :: real
  density :: real
  scale :: real
  chaos :: real
  motion :: real
  paletteVariation :: real
  pathShape :: PathShapeType
  animationMode :: AnimationMode
  flowAngle :: real

record Palette =
  name :: string
  background :: string
  anchor :: "string list"
  accent :: "string list"
  texture :: "string list"

datatype error = TypeError

section \<open>Colour variation (palettes.ts, varyColor)\<close>

text \<open>JavaScript's \<open>%\<close> on integers: the result takes the sign of the dividend.\<close>

definition jsRem :: "int \<Rightarrow> int \<Rightarrow> int" where
  "jsRem a b = sgn a * (\<bar>a\<bar> mod \<bar>b\<bar>)"

text \<open>The hash \<open>(seed * 9301 + 49297) % 233280\<close> in exact integer arithmetic.  The source
  computes it in doubles, which is the same for the seeds of \<open>exactSeed\<close>: product and
  sum stay within \<open>2^53\<close>.  For larger seeds the source rounds, and from about
  \<open>1.9e304\<close> on the product is infinite and the hash NaN; the statements about the
  hash are for exact seeds.\<close>

definition exactSeed :: "int \<Rightarrow> bool" where
  "exactSeed sd \<longleftrightarrow> \<bar>sd\<bar> * 9301 + 49297 \<le> 2 ^ 53"

definition lcgHash :: "int \<Rightarrow> int" where
  "lcgHash seed = jsRem (seed * 9301 + 49297) 233280"

definition lcgRnd :: "int \<Rightarrow> real" where
  "lcgRnd seed = real_of_int (lcgHash seed) / 233280"

definition variationAmount :: "real \<Rightarrow> real" where
  "variationAmount variation = (variation / 100) * 0.3"

definition adjust :: "real \<Rightarrow> int \<Rightarrow> real" where
  "adjust variation seed = (lcgRnd seed - 0.5) * 2 * variationAmount variation"

text \<open>\<open>parseInt(s, 16)\<close>: leading white space, an optional sign, an optional
  \<open>0x\<close> prefix, then the longest run of hexadecimal digits; NaN (\<open>None\<close>) when that
  run is empty.\<close>

definition isWhiteSpace :: "char \<Rightarrow> bool" where
  "isWhiteSpace c \<longleftrightarrow> c \<in> {CHR 0x09, CHR 0x0A, CHR 0x0B, CHR 0x0C, CHR 0x0D, CHR 0x20, CHR 0xA0}"

definition hexVal :: "char \<Rightarrow> nat option" where
  "hexVal c = map_of
     [(CHR ''0'', 0), (CHR ''1'', 1), (CHR ''2'', 2), (CHR ''3'', 3), (CHR ''4'', 4),
      (CHR ''5'', 5), (CHR ''6'', 6), (CHR ''7'', 7), (CHR ''8'', 8), (CHR ''9'', 9),
      (CHR ''a'', 10), (CHR ''b'', 11), (CHR ''c'', 12), (CHR ''d'', 13), (CHR ''e'', 14),
      (CHR ''f'', 15),
      (CHR ''A'', 10), (CHR ''B'', 11), (CHR ''C'', 12), (CHR ''D'', 13), (CHR ''E'', 14),
      (CHR ''F'', 15)] c"

definition isHexDigit :: "char \<Rightarrow> bool" where
  "isHexDigit c \<longleftrightarrow> hexVal c \<noteq> None"

fun hexDigits :: "nat \<Rightarrow> string \<Rightarrow> nat" where
  "hexDigits acc [] = acc"
| "hexDigits acc (c # cs) = hexDigits (16 * acc + the (hexVal c)) cs"

definition stripSign :: "string \<Rightarrow> int \<times> string" where
  "stripSign s =
     (case s of
        c # cs \<Rightarrow> if c = CHR ''-'' then (-1, cs) else if c = CHR ''+'' then (1, cs) else (1, s)
      | [] \<Rightarrow> (1, s))"

definition stripPrefix :: "string \<Rightarrow> string" where
  "stripPrefix s =
     (case s of
        a # b # cs \<Rightarrow> if a = CHR ''0'' \<and> (b = CHR ''x'' \<or> b = CHR ''X'') then cs else s
      | _ \<Rightarrow> s)"

definition parseInt16 :: "string \<Rightarrow> int option" where
  "parseInt16 s =
     (let (sign, s1) = stripSign (dropWhile isWhiteSpace s);
          z = takeWhile isHexDigit (stripPrefix s1)
      in if z = [] then None else Some (sign * int (hexDigits 0 z)))"

text \<open>\<open>s.slice(a, b)\<close> for non-negative indices.\<close>

definition slice :: "string \<Rightarrow> nat \<Rightarrow> nat \<Rightarrow> string" where
  "slice s a b = take (b - a) (drop a s)"

text \<open>\<open>Math.round\<close> rounds halves towards plus infinity.\<close>

definition mathRound :: "real \<Rightarrow> int" where
  "mathRound v = \<lfloor>v + 1 / 2\<rfloor>"

definition newChannel :: "int option \<Rightarrow> real \<Rightarrow> int option" where
  "newChannel ch adj =
     (case ch of
        None \<Rightarrow> None
      | Some v \<Rightarrow> Some (min 255 (max 0 (mathRound (real_of_int v * (1 + adj))))))"

definition digitChar :: "nat \<Rightarrow> char" where
  "digitChar d = ''0123456789abcdef'' ! d"

text \<open>\<open>n.toString(16)\<close> for a non-negative integer.\<close>

fun toString16 :: "nat \<Rightarrow> string" where
  "toString16 n = (if n < 16 then [digitChar n] else toString16 (n div 16) @ [digitChar (n mod 16)])"

declare toString16.simps [simp del]

definition padStart2 :: "string \<Rightarrow> string" where
  "padStart2 s = replicate (2 - length s) (CHR ''0'') @ s"

definition channelString :: "int option \<Rightarrow> string" where
  "channelString ch =
     (case ch of None \<Rightarrow> padStart2 ''NaN'' | Some v \<Rightarrow> padStart2 (toString16 (nat v)))"

definition varyColor :: "string \<Rightarrow> real \<Rightarrow> int \<Rightarrow> string" where
  "varyColor baseColor variation seed =
     (let r = parseInt16 (slice baseColor 1 3);
          g = parseInt16 (slice baseColor 3 5);
          b = parseInt16 (slice baseColor 5 7);
          adj = adjust variation seed
      in CHR ''#'' # channelString (newChannel r adj)
           @ channelString (newChannel g adj)
           @ channelString (newChannel b adj))"

text \<open>A colour of the form \<open>#rrggbb\<close>, and the same with lower-case digits only.\<close>

definition isHexColor :: "string \<Rightarrow> bool" where
  "isHexColor c \<longleftrightarrow> length c = 7 \<and> hd c = CHR ''#'' \<and> list_all isHexDigit (tl c)"

definition isLowerHexDigit :: "char \<Rightarrow> bool" where
  "isLowerHexDigit c \<longleftrightarrow> c \<in> set ''0123456789abcdef''"

definition isLowerHexColor :: "string \<Rightarrow> bool" where
  "isLowerHexColor c \<longleftrightarrow> length c = 7 \<and> hd c = CHR ''#'' \<and> list_all isLowerHexDigit (tl c)"

definition lowerHex :: "char \<Rightarrow> char" where
  "lowerHex c =
     (if c = CHR ''A'' then CHR ''a'' else if c = CHR ''B'' then CHR ''b''
      else if c = CHR ''C'' then CHR ''c'' else if c = CHR ''D'' then CHR ''d''
      else if c = CHR ''E'' then CHR ''e'' else if c = CHR ''F'' then CHR ''f'' else c)"


section \<open>Seeded RNG (random.ts)\<close>

text \<open>The closure variable \<open>t\<close> of \<open>createRandom\<close> is the generator's state; every
  operation takes it and returns the new one.  \<open>Math.imul\<close> and the bit operators
  work on the 32-bit pattern of their operands.\<close>

type_synonym rng = "32 word"

text \<open>\<open>seed + 0x6d2b79f5\<close> is exact in the source for seeds below \<open>2^53\<close> in magnitude;
  the first bit operation truncates it to 32 bits.\<close>

definition createRandom :: "int \<Rightarrow> rng" where
  "createRandom sd = word_of_int (sd + 0x6d2b79f5)"

definition imul :: "32 word \<Rightarrow> 32 word \<Rightarrow> 32 word" where
  "imul a b = a * b"

definition nextState :: "rng \<Rightarrow> rng" where
  "nextState t =
     (let t1 = imul (t XOR drop_bit 15 t) (t OR 1)
      in t1 XOR (t1 + imul (t1 XOR drop_bit 7 t1) (t1 OR 61)))"

definition random :: "rng \<Rightarrow> real \<times> rng" where
  "random t =
     (let t' = nextState t
      in (real (unat (t' XOR drop_bit 14 t')) / 4294967296, t'))"

definition createRandomUtils :: "int \<Rightarrow> rng" where
  "createRandomUtils sd = createRandom sd"

definition range :: "real \<Rightarrow> real \<Rightarrow> rng \<Rightarrow> real \<times> rng" where
  "range lo hi t = (let (r, t') = random t in (lo + r * (hi - lo), t'))"

text \<open>\<open>arr[Math.floor(random() * arr.length)]\<close>: \<open>undefined\<close> (\<open>None\<close>) on an empty array.\<close>

definition pick :: "'a list \<Rightarrow> rng \<Rightarrow> 'a option \<times> rng" where
  "pick arr t =
     (let (r, t') = random t;
          i = nat \<lfloor>r * real (length arr)\<rfloor>
      in (if i < length arr then Some (arr ! i) else None, t'))"

definition chance :: "real \<Rightarrow> rng \<Rightarrow> bool \<times> rng" where
  "chance probability t = (let (r, t') = random t in (r < probability, t'))"

text \<open>Box-Muller with two draws:
  \<open>Math.sqrt(-2 * Math.log(u1)) * Math.cos(2 * Math.PI * u2)\<close>.  For \<open>u1 = 0\<close> the
  logarithm is minus Infinity and the sample infinite.\<close>

definition gaussian :: "rng \<Rightarrow> jsnum \<times> rng" where
  "gaussian t =
     (let (u1, t1) = random t;
          (u2, t2) = random t1
      in (jsMul (jsSqrt (jsMul (Fin (- 2)) (jsLog u1))) (Fin (cos (2 * pi * u2))), t2))"

section \<open>Shape factory (shapes.ts)\<close>

record ShapeOptions =
  opt_fill :: "string option"
  opt_stroke :: "string option"
  opt_strokeWidth :: "real option"
  opt_rotation :: "real option"
  opt_cornerRadius :: "real option"

definition noOptions :: ShapeOptions where
  "noOptions = \<lparr>opt_fill = None, opt_stroke = None, opt_strokeWidth = None,
                 opt_rotation = None, opt_cornerRadius = None\<rparr>"

definition mkShape :: "Kind \<Rightarrow> jsnum \<Rightarrow> jsnum \<Rightarrow> ShapeOptions \<Rightarrow> Shape" where
  "mkShape k x y options =
     \<lparr>kind = k, shape_x = x, shape_y = y,
      rotation = (case opt_rotation options of None \<Rightarrow> 0 | Some v \<Rightarrow> v),
      fill = opt_fill options, stroke = opt_stroke options,
      strokeWidth = opt_strokeWidth options\<rparr>"

definition createCircle :: "jsnum \<Rightarrow> jsnum \<Rightarrow> real \<Rightarrow> ShapeOptions \<Rightarrow> Shape" where
  "createCircle x y radius options = mkShape (Circle radius) x y options"

definition createRectangle :: "jsnum \<Rightarrow> jsnum \<Rightarrow> real \<Rightarrow> real \<Rightarrow> ShapeOptions \<Rightarrow> Shape" where
  "createRectangle x y w h options = mkShape (Rectangle w h (opt_cornerRadius options)) x y options"

definition createLine :: "jsnum \<Rightarrow> jsnum \<Rightarrow> jsnum \<Rightarrow> jsnum \<Rightarrow> ShapeOptions \<Rightarrow> Shape" where
  "createLine x y x2 y2 options = mkShape (Line x2 y2) x y options"

definition createSemicircle :: "jsnum \<Rightarrow> jsnum \<Rightarrow> real \<Rightarrow> ShapeOptions \<Rightarrow> Shape" where
  "createSemicircle x y radius options = mkShape (Semicircle radius) x y options"

definition createTriangle :: "jsnum \<Rightarrow> jsnum \<Rightarrow> real \<Rightarrow> ShapeOptions \<Rightarrow> Shape" where
  "createTriangle x y sz options = mkShape (Triangle sz) x y options"

text \<open>\<open>{ ...shape, role }\<close>\<close>

definition withRole :: "Shape \<Rightarrow> Role \<Rightarrow> RoleShape" where
  "withRole s r =
     \<lparr>kind = kind s, shape_x = shape_x s, shape_y = shape_y s, rotation = rotation s,
      fill = fill s, stroke = stroke s, strokeWidth = strokeWidth s, role = r\<rparr>"

section \<open>Text path provider (fontPaths.ts, generated from the extraction script)\<close>

record PathPoint =
  pt_x :: real
  pt_y :: real

record LetterBound =
  lb_x :: real
  lb_width :: real

text \<open>The glyph table is static data produced offline; it is a parameter here.  The
  extraction script gives it one entry per character of
  \<open>ABCDEFGHIJKLMNOPQRSTUVWXYZ0123456789\<close> and the entry \<open>[]\<close> for the space.\<close>

type_synonym FontPaths = "char \<rightharpoonup> PathPoint list"

text \<open>\<open>toUpperCase\<close> on the ASCII letters; other characters are left as they are.\<close>

definition toUpperChar :: "char \<Rightarrow> char" where
  "toUpperChar c =
     (let n = (of_char c :: nat) in if 97 \<le> n \<and> n \<le> 122 then char_of (n - 32) else c)"

definition toUpperCase :: "string \<Rightarrow> string" where
  "toUpperCase s = map toUpperChar s"

definition trim :: "string \<Rightarrow> string" where
  "trim s = rev (dropWhile isWhiteSpace (rev (dropWhile isWhiteSpace s)))"

text \<open>\<open>for (j = 0; j < path.length; j += sampleRate)\<close>: the elements at indices
  0, sampleRate, 2 sampleRate, ...\<close>

fun everyNth :: "nat \<Rightarrow> 'a list \<Rightarrow> 'a list" where
  "everyNth n [] = []"
| "everyNth n (p # ps) = p # everyNth n (drop (n - 1) ps)"

definition sampleRate :: "real \<Rightarrow> nat" where
  "sampleRate dens = nat (max 1 (\<lfloor>(100 - dens) / 15\<rfloor> + 1))"

definition letterPoints ::
  "FontPaths \<Rightarrow> nat \<Rightarrow> real \<Rightarrow> real \<Rightarrow> real \<Rightarrow> real \<Rightarrow> char \<Rightarrow> PathPoint list" where
  "letterPoints fontPaths rate letterWidth letterHeight startY letterX ch =
     (case fontPaths ch of
        None \<Rightarrow> []
      | Some letterPath \<Rightarrow>
          map (\<lambda>point. \<lparr>pt_x = letterX + pt_x point * letterWidth,
                         pt_y = startY + pt_y point * letterHeight\<rparr>)
            (everyNth rate letterPath))"

definition getTextPathPoints ::
  "FontPaths \<Rightarrow> string \<Rightarrow> real \<Rightarrow> real \<Rightarrow> real \<Rightarrow> PathPoint list \<times> LetterBound list" where
  "getTextPathPoints fontPaths txt canvasWidth canvasHeight dens =
     (let upperText = toUpperCase txt
      in if length upperText = 0 then ([], [])
         else
           let padding = canvasWidth * 0.08;
               availableWidth = canvasWidth - padding * 2;
               n = real (length upperText);
               letterWidth = min (availableWidth / n) (canvasHeight * 0.6);
               letterHeight = letterWidth * 1.2;
               letterSpacing = letterWidth * 0.1;
               totalWidth = n * letterWidth + (n - 1) * letterSpacing;
               startX = (canvasWidth - totalWidth) / 2;
               startY = (canvasHeight - letterHeight) / 2;
               rate = sampleRate dens;
               letterX = (\<lambda>i. startX + real i * (letterWidth + letterSpacing))
           in (concat (map (\<lambda>i. letterPoints fontPaths rate letterWidth letterHeight startY
                                   (letterX i) (upperText ! i))
                         [0..<length upperText]),
               map (\<lambda>i. \<lparr>lb_x = letterX i, lb_width = letterWidth\<rparr>) [0..<length upperText]))"

section \<open>Composition generator (generator.ts)\<close>

record GeneratorConfig =
  width :: real
  height :: real
  controls :: Controls
  palette :: Palette
  seed :: int
  text_in :: "string option"

text \<open>A counted loop whose body draws from the shared generator and may throw: the
  bodies run in index order, each on the state the previous one left.\<close>

fun loopM :: "(nat \<Rightarrow> rng \<Rightarrow> error + ('a \<times> rng)) \<Rightarrow> nat list \<Rightarrow> rng \<Rightarrow> error + ('a list \<times> rng)" where
  "loopM body [] t = Inr ([], t)"
| "loopM body (i # is) t =
     (case body i t of
        Inl e \<Rightarrow> Inl e
      | Inr (v, t1) \<Rightarrow>
          (case loopM body is t1 of
             Inl e \<Rightarrow> Inl e
           | Inr (vs, t2) \<Rightarrow> Inr (v # vs, t2)))"

text \<open>\<open>Math.atan2\<close>, up to the sign of zero, with its values at infinite
  arguments.\<close>

definition atan2 :: "real \<Rightarrow> real \<Rightarrow> real" where
  "atan2 dy dx = Arg (Complex dx dy)"

fun jsAtan2 :: "jsnum \<Rightarrow> jsnum \<Rightarrow> jsnum" where
  "jsAtan2 NaN dx = NaN"
| "jsAtan2 dy NaN = NaN"
| "jsAtan2 (Fin dy) (Fin dx) = Fin (atan2 dy dx)"
| "jsAtan2 PosInf (Fin dx) = Fin (pi / 2)"
| "jsAtan2 NegInf (Fin dx) = Fin (- pi / 2)"
| "jsAtan2 (Fin dy) PosInf = Fin 0"
| "jsAtan2 (Fin dy) NegInf = Fin (if dy < 0 then - pi else pi)"
| "jsAtan2 PosInf PosInf = Fin (pi / 4)"
| "jsAtan2 PosInf NegInf = Fin (3 * pi / 4)"
| "jsAtan2 NegInf PosInf = Fin (- pi / 4)"
| "jsAtan2 NegInf NegInf = Fin (- 3 * pi / 4)"

text \<open>The \<open>switch\<close> over the five path shape kinds; its \<open>default\<close> branch is not
  reachable for a value of the type.  \<open>flowRad\<close> is defined exactly when the flow angle
  is.\<close>

definition createShapeAtPoint ::
  "jsnum \<Rightarrow> jsnum \<Rightarrow> real \<Rightarrow> PathShapeType \<Rightarrow> string \<Rightarrow> real \<Rightarrow> PathPoint option \<Rightarrow> real option \<Rightarrow> Shape" where
  "createShapeAtPoint x y sz shType color rot nextPoint flowAngleOpt =
     (let flowRad = map_option (\<lambda>a. (a * pi) / 180) flowAngleOpt
      in case shType of
           circle \<Rightarrow>
             createCircle x y sz (noOptions\<lparr>opt_fill := Some color, opt_rotation := Some rot\<rparr>)
         | semicircle \<Rightarrow>
             (let semiRotation = (if flowRad \<noteq> None then the flowAngleOpt else rot)
              in createSemicircle x y sz
                   (noOptions\<lparr>opt_fill := Some color, opt_rotation := Some semiRotation\<rparr>))
         | triangle \<Rightarrow>
             (let triRotation = (if flowRad \<noteq> None then the flowAngleOpt else rot)
              in createTriangle x y (sz * 2)
                   (noOptions\<lparr>opt_fill := Some color, opt_rotation := Some triRotation\<rparr>))
         | rectangle \<Rightarrow>
             createRectangle x y (sz * 1.8) (sz * 1.8)
               (noOptions\<lparr>opt_fill := Some color, opt_rotation := Some rot\<rparr>)
         | line \<Rightarrow>
             (let angle = (case flowRad of
                             Some fr \<Rightarrow> Fin fr
                           | None \<Rightarrow>
                               (case nextPoint of
                                  Some np \<Rightarrow>
                                    jsAtan2 (jsSub (Fin (pt_y np)) y) (jsSub (Fin (pt_x np)) x)
                                | None \<Rightarrow> Fin (rot * (pi / 180))));
                  len = sz * 2.5
              in createLine x y (jsAdd x (jsMul (jsCos angle) (Fin len)))
                   (jsAdd y (jsMul (jsSin angle) (Fin len)))
                   (noOptions\<lparr>opt_stroke := Some color,
                               opt_strokeWidth := Some (max 2 (sz * 0.3))\<rparr>)))"

text \<open>\<open>varyColor\<close> applied to a possibly \<open>undefined\<close> colour: \<open>baseColor.slice\<close> throws
  a TypeError on \<open>undefined\<close>.\<close>

definition varyColorOpt :: "string option \<Rightarrow> real \<Rightarrow> int \<Rightarrow> error + string" where
  "varyColorOpt baseColor variation sd =
     (case baseColor of None \<Rightarrow> Inl TypeError | Some c \<Rightarrow> Inr (varyColor c variation sd))"

text \<open>\<open>arr[i % arr.length]\<close>: \<open>undefined\<close> on an empty array (the index is NaN).\<close>

definition cyclic :: "'a list \<Rightarrow> nat \<Rightarrow> 'a option" where
  "cyclic arr i = (if arr = [] then None else Some (arr ! (i mod length arr)))"

definition textStep ::
  "GeneratorConfig \<Rightarrow> PathPoint list \<Rightarrow> real \<Rightarrow> real \<Rightarrow> nat \<Rightarrow> rng \<Rightarrow> error + (RoleShape \<times> rng)" where
  "textStep cfg points sz chaosOffset i t =
     (let c = controls cfg;
          point = points ! i;
          (g1, t1) = gaussian t;
          offsetX = jsMul g1 (Fin chaosOffset);
          (g2, t2) = gaussian t1;
          offsetY = jsMul g2 (Fin chaosOffset);
          x = jsAdd (Fin (pt_x point)) offsetX;
          y = jsAdd (Fin (pt_y point)) offsetY;
          (r, t3) = range (- 30) 30 t2;
          rot = r * (chaos c / 100)
      in case varyColorOpt (cyclic (anchor (palette cfg)) i) (paletteVariation c)
                (seed cfg + int i) of
           Inl e \<Rightarrow> Inl e
         | Inr color \<Rightarrow>
             (let nextPoint = (if Suc i < length points then Some (points ! Suc i) else None);
                  orientFlowAngle = (if animationMode c = Drift then Some (flowAngle c) else None);
                  shape = createShapeAtPoint x y sz (pathShape c) color rot nextPoint orientFlowAngle
              in Inr (withRole shape Anchor, t3)))"

definition generateTextComposition :: "FontPaths \<Rightarrow> GeneratorConfig \<Rightarrow> error + RoleShape list" where
  "generateTextComposition fontPaths cfg =
     (let c = controls cfg; t = createRandomUtils (seed cfg)
      in case text_in cfg of
           None \<Rightarrow> Inr []
         | Some txt \<Rightarrow>
             if txt = [] then Inr []
             else
               (let points = fst (getTextPathPoints fontPaths txt (width cfg) (height cfg) (density c))
                in if length points = 0 then Inr []
                   else
                     (let baseSize = min (width cfg) (height cfg) * 0.025;
                          sz = baseSize * (0.1 + (scale c / 100) * 2.0);
                          chaosOffset = (chaos c / 100) * sz * 2
                      in case loopM (textStep cfg points sz chaosOffset) [0..<length points] t of
                           Inl e \<Rightarrow> Inl e
                         | Inr (shapes, _) \<Rightarrow> Inr shapes)))"

definition anchorCount :: "Controls \<Rightarrow> nat" where
  "anchorCount c = nat (max 1 \<lfloor>1 + (density c / 100) * 3\<rfloor>)"

text \<open>The body of the anchor loop, in the order of its draws: placement, shape type,
  colour, then rotation and geometry.\<close>

definition anchorPlacement ::
  "real \<Rightarrow> real \<Rightarrow> Controls \<Rightarrow> real \<Rightarrow> bool \<Rightarrow> nat \<Rightarrow> nat \<Rightarrow> rng \<Rightarrow> jsnum \<times> jsnum \<times> rng" where
  "anchorPlacement w h c sz useGrid gridSize i t =
     (if useGrid then
        (let col = i mod gridSize;
             row = i div gridSize;
             cellW = w / real gridSize;
             cellH = h / real gridSize;
             x0 = cellW * (real col + 0.5);
             y0 = cellH * (real row + 0.5);
             chaosAmount = (chaos c / 100) * cellW * 0.4;
             (g1, ta) = gaussian t;
             (g2, tb) = gaussian ta
         in (jsAdd (Fin x0) (jsMul g1 (Fin chaosAmount)),
             jsAdd (Fin y0) (jsMul g2 (Fin chaosAmount)), tb))
      else
        (let margin = sz;
             (x0, ta) = range margin (w - margin) t;
             (y0, tb) = range margin (h - margin) ta
         in (Fin x0, Fin y0, tb)))"

definition anchorShape ::
  "Controls \<Rightarrow> real \<Rightarrow> jsnum \<Rightarrow> jsnum \<Rightarrow> string \<Rightarrow> ShapeType option \<Rightarrow> rng \<Rightarrow> RoleShape \<times> rng" where
  "anchorShape c sz x y color shType t3 =
     (let (rot, t4) =
            (if chaos c > 30
             then (let (r, ta) = range (- 45) 45 t3 in (r * (chaos c / 100), ta))
             else (0, t3))
      in if shType = Some circle then
           (let (r, t5) = range 0.6 1.0 t4;
                radius = sz * r
            in (withRole
                  (createCircle x y radius
                     (noOptions\<lparr>opt_fill := Some color, opt_rotation := Some rot\<rparr>))
                  Anchor, t5))
         else
           (let (rw, t5) = range 0.8 1.5 t4;
                rectW = sz * rw;
                (rh, t6) = range 0.8 1.5 t5;
                rectH = sz * rh;
                (rounded, t7) = chance 0.6 t6
            in (withRole
                  (createRectangle x y rectW rectH
                     (noOptions\<lparr>opt_fill := Some color, opt_rotation := Some rot,
                        opt_cornerRadius := Some (if rounded then sz * 0.1 else 0)\<rparr>))
                  Anchor, t7)))"

definition anchorStep ::
  "real \<Rightarrow> real \<Rightarrow> Controls \<Rightarrow> Palette \<Rightarrow> int \<Rightarrow> real \<Rightarrow> bool \<Rightarrow> nat \<Rightarrow> nat \<Rightarrow> rng
     \<Rightarrow> error + (RoleShape \<times> rng)" where
  "anchorStep w h c p sd sz useGrid gridSize i t =
     (let (x, y, t1) = anchorPlacement w h c sz useGrid gridSize i t;
          (shType, t2) = pick [circle, rectangle, circle] t1;
          (base, t3) = pick (anchor p) t2
      in case varyColorOpt base (paletteVariation c) (sd + int i) of
           Inl e \<Rightarrow> Inl e
         | Inr color \<Rightarrow> Inr (anchorShape c sz x y color shType t3))"

definition generateAnchors ::
  "real \<Rightarrow> real \<Rightarrow> Controls \<Rightarrow> Palette \<Rightarrow> rng \<Rightarrow> int \<Rightarrow> error + (RoleShape list \<times> rng)" where
  "generateAnchors w h c p t sd =
     (let count = anchorCount c;
          baseSize = min w h * 0.15;
          sizeMultiplier = 0.5 + (scale c / 100) * 1.5;
          sz = baseSize * sizeMultiplier;
          useGrid = structure_ctl c > 50;
          gridSize = nat \<lceil>sqrt (real count + 2)\<rceil>
      in loopM (anchorStep w h c p sd sz useGrid gridSize) [0..<count] t)"

definition accentCount :: "Controls \<Rightarrow> nat" where
  "accentCount c = nat \<lfloor>(density c / 100) * 15\<rfloor>"

text \<open>The body of the accent loop, in the order of its draws: placement, chaos drift,
  colour, then rotation, shape type and geometry.\<close>

definition accentPlacement ::
  "real \<Rightarrow> real \<Rightarrow> Controls \<Rightarrow> RoleShape list \<Rightarrow> real \<Rightarrow> rng \<Rightarrow> jsnum \<times> jsnum \<times> rng" where
  "accentPlacement w h c anchors sz t =
     (if structure_ctl c > 60 \<and> length anchors > 0 then
        (let (a, ta) = pick anchors t;
             (angle, tb) = range 0 (pi * 2) ta;
             (r, tc) = range 2 5 tb;
             distance = sz * r
         in \<comment> \<open>\<open>anchors\<close> is not empty here, so \<open>pick\<close> returned an element\<close>
            (jsAdd (shape_x (the a)) (Fin (cos angle * distance)),
             jsAdd (shape_y (the a)) (Fin (sin angle * distance)), tc))
      else
        (let (xa, ta) = range sz (w - sz) t;
             (ya, tb) = range sz (h - sz) ta
         in (Fin xa, Fin ya, tb)))"

definition accentDrift :: "Controls \<Rightarrow> real \<Rightarrow> jsnum \<Rightarrow> jsnum \<Rightarrow> rng \<Rightarrow> jsnum \<times> jsnum \<times> rng" where
  "accentDrift c sz x0 y0 t1 =
     (if chaos c > 20 then
        (let drift = sz * (chaos c / 100) * 2;
             (g1, ta) = gaussian t1;
             (g2, tb) = gaussian ta
         in (jsAdd x0 (jsMul g1 (Fin drift)), jsAdd y0 (jsMul g2 (Fin drift)), tb))
      else (x0, y0, t1))"

definition accentShape ::
  "Controls \<Rightarrow> real \<Rightarrow> jsnum \<Rightarrow> jsnum \<Rightarrow> string \<Rightarrow> rng \<Rightarrow> RoleShape \<times> rng" where
  "accentShape c sz x y color t3 =
     (let (r, t4) = range (- 30) 30 t3;
          rot = r * (chaos c / 100);
          (shType, t5) = pick [circle, rectangle, line] t4
      in if shType = Some circle then
           (let (rr, t6) = range 0.4 0.8 t5;
                (hasFill, t7) = chance 0.7 t6;
                (hasStroke, t8) = chance 0.5 t7
            in (withRole
                  (createCircle x y (sz * rr)
                     (noOptions\<lparr>opt_fill := (if hasFill then Some color else None),
                        opt_stroke := (if hasStroke then Some color else None),
                        opt_strokeWidth := Some 2, opt_rotation := Some rot\<rparr>))
                  Accent, t8))
         else if shType = Some rectangle then
           (let (rw, t6) = range 0.5 1.5 t5;
                (rh, t7) = range 0.5 1.5 t6;
                (hasFill, t8) = chance 0.6 t7;
                (hasStroke, t9) = chance 0.4 t8;
                (rounded, t10) = chance 0.5 t9
            in (withRole
                  (createRectangle x y (sz * rw) (sz * rh)
                     (noOptions\<lparr>opt_fill := (if hasFill then Some color else None),
                        opt_stroke := (if hasStroke then Some color else None),
                        opt_strokeWidth := Some 2, opt_rotation := Some rot,
                        opt_cornerRadius := Some (if rounded then sz * 0.15 else 0)\<rparr>))
                  Accent, t10))
         else
           (let (rl, t6) = range 1 3 t5;
                len = sz * rl;
                (angle, t7) = range 0 (pi * 2) t6;
                (sw, t8) = range 1 3 t7
            in (withRole
                  (createLine x y (jsAdd x (Fin (cos angle * len)))
                     (jsAdd y (Fin (sin angle * len)))
                     (noOptions\<lparr>opt_stroke := Some color, opt_strokeWidth := Some sw\<rparr>))
                  Accent, t8)))"

definition accentStep ::
  "real \<Rightarrow> real \<Rightarrow> Controls \<Rightarrow> Palette \<Rightarrow> RoleShape list \<Rightarrow> int \<Rightarrow> real \<Rightarrow> nat \<Rightarrow> rng
     \<Rightarrow> error + (RoleShape \<times> rng)" where
  "accentStep w h c p anchors sd sz i t =
     (let (x0, y0, t1) = accentPlacement w h c anchors sz t;
          (x, y, t2) = accentDrift c sz x0 y0 t1;
          (base, t3) = pick (accent p) t2
      in case varyColorOpt base (paletteVariation c) (sd + int i + 100) of
           Inl e \<Rightarrow> Inl e
         | Inr color \<Rightarrow> Inr (accentShape c sz x y color t3))"

definition generateAccents ::
  "real \<Rightarrow> real \<Rightarrow> Controls \<Rightarrow> Palette \<Rightarrow> rng \<Rightarrow> RoleShape list \<Rightarrow> int
     \<Rightarrow> error + (RoleShape list \<times> rng)" where
  "generateAccents w h c p t anchors sd =
     (let count = accentCount c;
          baseSize = min w h * 0.06;
          sizeMultiplier = 0.5 + (scale c / 100) * 1.0;
          sz = baseSize * sizeMultiplier
      in loopM (accentStep w h c p anchors sd sz) [0..<count] t)"

definition textureCount :: "Controls \<Rightarrow> nat" where
  "textureCount c = nat \<lfloor>((density c - 40) / 60) * 50\<rfloor>"

definition textureShape ::
  "Controls \<Rightarrow> real \<Rightarrow> jsnum \<Rightarrow> jsnum \<Rightarrow> string option \<Rightarrow> ShapeType option \<Rightarrow> rng
     \<Rightarrow> RoleShape \<times> rng" where
  "textureShape c sz x y color shType t4 =
     (if shType = Some circle then
        (let (r, t5) = range 0.3 1.0 t4
         in (withRole (createCircle x y (sz * r) (noOptions\<lparr>opt_fill := color\<rparr>)) Texture, t5))
      else
        (let (rl, t5) = range 2 6 t4;
             len = sz * rl;
             (angle, t6) =
               (if structure_ctl c > 50
                then (let (a, ta) = pick [0, pi / 2, pi / 4, - pi / 4] t5 in (the a, ta))
                else range 0 (pi * 2) t5)
         in (withRole
               (createLine x y (jsAdd x (Fin (cos angle * len)))
                  (jsAdd y (Fin (sin angle * len)))
                  (noOptions\<lparr>opt_stroke := color, opt_strokeWidth := Some 1\<rparr>))
               Texture, t6)))"

definition textureStep ::
  "real \<Rightarrow> real \<Rightarrow> Controls \<Rightarrow> Palette \<Rightarrow> real \<Rightarrow> nat \<Rightarrow> rng \<Rightarrow> error + (RoleShape \<times> rng)" where
  "textureStep w h c p sz i t =
     (let (x, t1) = range 0 w t;
          (y, t2) = range 0 h t1;
          (color, t3) = pick (texture p) t2;
          (shType, t4) = pick [circle, line, circle] t3
      in Inr (textureShape c sz (Fin x) (Fin y) color shType t4))"

definition generateTexture ::
  "real \<Rightarrow> real \<Rightarrow> Controls \<Rightarrow> Palette \<Rightarrow> rng \<Rightarrow> error + (RoleShape list \<times> rng)" where
  "generateTexture w h c p t =
     (if density c < 40 then Inr ([], t)
      else
        (let count = textureCount c;
             baseSize = min w h * 0.015;
             sz = baseSize * (0.5 + (scale c / 100) * 0.5)
         in loopM (textureStep w h c p sz) [0..<count] t))"

text \<open>\<open>text && text.trim().length > 0\<close>\<close>

definition textMode :: "string option \<Rightarrow> bool" where
  "textMode txt = (case txt of None \<Rightarrow> False | Some s \<Rightarrow> s \<noteq> [] \<and> length (trim s) > 0)"

text \<open>The free-form branch of \<open>generateComposition\<close>: one generator from the seed,
  threaded through anchors, accents and texture in this order; the result is their
  concatenation.\<close>

definition generateFreeForm :: "GeneratorConfig \<Rightarrow> error + RoleShape list" where
  "generateFreeForm cfg =
     (let w = width cfg; h = height cfg; c = controls cfg; p = palette cfg; sd = seed cfg;
          t = createRandomUtils sd
      in case generateAnchors w h c p t sd of
           Inl e \<Rightarrow> Inl e
         | Inr (anchors, t1) \<Rightarrow>
             (case generateAccents w h c p t1 anchors sd of
                Inl e \<Rightarrow> Inl e
              | Inr (accents, t2) \<Rightarrow>
                  (case generateTexture w h c p t2 of
                     Inl e \<Rightarrow> Inl e
                   | Inr (textures, t3) \<Rightarrow> Inr (anchors @ accents @ textures))))"

definition generateComposition :: "FontPaths \<Rightarrow> GeneratorConfig \<Rightarrow> error + RoleShape list" where
  "generateComposition fontPaths cfg =
     (if textMode (text_in cfg) then generateTextComposition fontPaths cfg
      else generateFreeForm cfg)"

section \<open>Animation engine (animation.ts)\<close>

record AnimatedShape = RoleShape +
  vx :: real
  vy :: real
  vRotation :: real
  pulsePhase :: real
  pulseSpeed :: real
  originalRadius :: "real option"
  originalWidth :: "real option"
  originalHeight :: "real option"
  originalSize :: "real option"
  wobblePhase :: real
  wobbleSpeed :: real
  wobbleAmount :: real
  wobbleX :: "real option"
  wobbleY :: "real option"

text \<open>The closure variable \<open>s\<close> of the local \<open>random\<close>: one step of the
  linear-congruential stream, in exact integer arithmetic.  The source computes in
  doubles; the first step is the same for the seeds of \<open>exactSeed\<close>, and every later
  step starts from a state below 233280 in magnitude.\<close>

definition animRandom :: "int \<Rightarrow> real \<times> int" where
  "animRandom s = (let s' = jsRem (s * 9301 + 49297) 233280 in (real_of_int s' / 233280, s'))"

text \<open>\<open>for (let j = 0; j < i; j++) random();\<close>\<close>

fun advance :: "nat \<Rightarrow> int \<Rightarrow> int" where
  "advance 0 s = s"
| "advance (Suc j) s = advance j (snd (animRandom s))"

text \<open>The value a caller passes for the parameter \<open>stationaryMode: boolean = false\<close>,
  and its truthiness as the conditional operator sees it (the default replaces
  \<open>undefined\<close>).\<close>

datatype JSValue = JSUndefined | JSBool bool | JSString string

fun truthy :: "JSValue \<Rightarrow> bool" where
  "truthy JSUndefined = False"
| "truthy (JSBool b) = b"
| "truthy (JSString str) = (str \<noteq> [])"

definition roleMultiplier :: "Role \<Rightarrow> real" where
  "roleMultiplier r = (if r = Anchor then 0.3 else if r = Accent then 0.7 else 1.0)"

definition animateShape ::
  "RoleShape \<Rightarrow> nat \<Rightarrow> real \<Rightarrow> real \<Rightarrow> bool \<Rightarrow> int \<Rightarrow> AnimatedShape \<times> int" where
  "animateShape shape i chaosV motionV stationaryMode s =
     (let motionMultiplier = motionV / 100;
          s0 = advance i s;
          chaosMultiplier = chaosV / 100;
          roleM = roleMultiplier (role shape);
          velocityScale = (if stationaryMode then 0 else 1);
          (r1, s1) = animRandom s0;
          (r2, s2) = animRandom s1;
          (r3, s3) = animRandom s2;
          (r4, s4) = animRandom s3;
          (r5, s5) = animRandom s4;
          (r6, s6) = animRandom s5;
          (r7, s7) = animRandom s6;
          (r8, s8) = animRandom s7;
          k = kind shape
      in (\<lparr>kind = k, shape_x = shape_x shape, shape_y = shape_y shape,
           rotation = rotation shape, fill = fill shape, stroke = stroke shape,
           strokeWidth = strokeWidth shape, role = role shape,
           vx = (r1 - 0.5) * 3 * chaosMultiplier * roleM * motionMultiplier * velocityScale,
           vy = (r2 - 0.5) * 3 * chaosMultiplier * roleM * motionMultiplier * velocityScale,
           vRotation = (r3 - 0.5) * 3 * chaosMultiplier * roleM * motionMultiplier
                         * (if stationaryMode then 0.3 else 1),
           pulsePhase = r4 * pi * 2,
           pulseSpeed = (0.02 + r5 * 0.04) * motionMultiplier,
           originalRadius =
             (case k of Circle r \<Rightarrow> Some r | Semicircle r \<Rightarrow> Some r | _ \<Rightarrow> None),
           originalWidth = (case k of Rectangle rw _ _ \<Rightarrow> Some rw | _ \<Rightarrow> None),
           originalHeight = (case k of Rectangle _ rh _ \<Rightarrow> Some rh | _ \<Rightarrow> None),
           originalSize = (case k of Triangle z \<Rightarrow> Some z | _ \<Rightarrow> None),
           wobblePhase = r6 * pi * 2,
           wobbleSpeed = (0.015 + r7 * 0.03) * motionMultiplier,
           wobbleAmount = (if stationaryMode then 4 else 8)
                            + r8 * (if stationaryMode then 8 else 15) * chaosMultiplier
                                * motionMultiplier,
           wobbleX = None, wobbleY = None\<rparr>, s8))"

fun animateAll ::
  "(nat \<times> RoleShape) list \<Rightarrow> real \<Rightarrow> real \<Rightarrow> bool \<Rightarrow> int \<Rightarrow> AnimatedShape list" where
  "animateAll [] chaosV motionV stationaryMode s = []"
| "animateAll ((i, shape) # rest) chaosV motionV stationaryMode s =
     (let (a, s') = animateShape shape i chaosV motionV stationaryMode s
      in a # animateAll rest chaosV motionV stationaryMode s')"

definition addAnimationProperties ::
  "RoleShape list \<Rightarrow> real \<Rightarrow> real \<Rightarrow> int \<Rightarrow> JSValue \<Rightarrow> AnimatedShape list" where
  "addAnimationProperties shapes chaosV motionV sd stationaryMode =
     animateAll (enumerate 0 shapes) chaosV motionV
       (truthy (if stationaryMode = JSUndefined then JSBool False else stationaryMode)) sd"

text \<open>A number used as a condition: present and not zero.\<close>

definition truthyNum :: "real option \<Rightarrow> bool" where
  "truthyNum v = (case v of None \<Rightarrow> False | Some r \<Rightarrow> r \<noteq> 0)"

text \<open>\<open>1 + Math.sin(shape.pulsePhase) * 0.15\<close>\<close>

definition pulseFactorAt :: "real \<Rightarrow> real" where
  "pulseFactorAt phase = 1 + sin phase * 0.15"

definition updateShape :: "real \<Rightarrow> real \<Rightarrow> real \<Rightarrow> AnimatedShape \<Rightarrow> AnimatedShape" where
  "updateShape w h dt shape =
     (let x1 = jsAdd (shape_x shape) (Fin (vx shape * dt));
          y1 = jsAdd (shape_y shape) (Fin (vy shape * dt));
          wPhase = wobblePhase shape + wobbleSpeed shape * dt;
          wobX = sin wPhase * wobbleAmount shape;
          wobY = cos (wPhase * 1.3) * wobbleAmount shape;
          padding = 50;
          (vx1, x2) = (if jsLess x1 (Fin padding) \<or> jsLess (Fin (w - padding)) x1
                       then (vx shape * (- 1),
                             jsMax (Fin padding) (jsMin (Fin (w - padding)) x1))
                       else (vx shape, x1));
          (vy1, y2) = (if jsLess y1 (Fin padding) \<or> jsLess (Fin (h - padding)) y1
                       then (vy shape * (- 1),
                             jsMax (Fin padding) (jsMin (Fin (h - padding)) y1))
                       else (vy shape, y1));
          rot = rotation shape + vRotation shape * dt;
          pPhase = pulsePhase shape + pulseSpeed shape * dt;
          pulseFactor = pulseFactorAt pPhase;
          k = (case kind shape of
                 Circle r \<Rightarrow>
                   (if truthyNum (originalRadius shape)
                    then Circle (the (originalRadius shape) * pulseFactor) else Circle r)
               | Semicircle r \<Rightarrow>
                   (if truthyNum (originalRadius shape)
                    then Semicircle (the (originalRadius shape) * pulseFactor) else Semicircle r)
               | Rectangle rw rh cr \<Rightarrow>
                   (if truthyNum (originalWidth shape) \<and> truthyNum (originalHeight shape)
                    then Rectangle (the (originalWidth shape) * pulseFactor)
                           (the (originalHeight shape) * pulseFactor) cr
                    else Rectangle rw rh cr)
               | Triangle z \<Rightarrow>
                   (if truthyNum (originalSize shape)
                    then Triangle (the (originalSize shape) * pulseFactor) else Triangle z)
               | Line lx ly \<Rightarrow> Line lx ly)
      in shape\<lparr>kind := k, shape_x := x2, shape_y := y2, rotation := rot, vx := vx1, vy := vy1,
           pulsePhase := pPhase, wobblePhase := wPhase, wobbleX := Some wobX,
           wobbleY := Some wobY\<rparr>)"

definition updateAnimatedShapes ::
  "AnimatedShape list \<Rightarrow> real \<Rightarrow> real \<Rightarrow> real \<Rightarrow> AnimatedShape list" where
  "updateAnimatedShapes shapes w h deltaTime =
     (let dt = deltaTime * 0.06 in map (updateShape w h dt) shapes)"

section \<open>The caller's wiring (Canvas.tsx)\<close>

fun modeString :: "AnimationMode \<Rightarrow> string" where
  "modeString Full = ''full''"
| "modeString Stationary = ''stationary''"
| "modeString Drift = ''drift''"
| "modeString Pulse = ''pulse''"

text \<open>The effect that regenerates the shapes: \<open>generateComposition\<close>, then
  \<open>addAnimationProperties(baseShapes, controls.chaos, controls.motion, seed,
  controls.animationMode, controls.flowAngle)\<close>.  The fifth argument is the mode string;
  the function declares five parameters, so the sixth is dropped.\<close>

definition canvasShapes :: "FontPaths \<Rightarrow> GeneratorConfig \<Rightarrow> error + AnimatedShape list" where
  "canvasShapes fontPaths cfg =
     (case generateComposition fontPaths cfg of
        Inl e \<Rightarrow> Inl e
      | Inr baseShapes \<Rightarrow>
          Inr (addAnimationProperties baseShapes (chaos (controls cfg)) (motion (controls cfg))
                 (seed cfg) (JSString (modeString (animationMode (controls cfg))))))"

section \<open>Observations and concrete data used in the statements\<close>

text \<open>The three channels of a colour string, as \<open>varyColor\<close> reads them.\<close>

definition channelsOf :: "string \<Rightarrow> int option list" where
  "channelsOf c = [parseInt16 (slice c 1 3), parseInt16 (slice c 3 5), parseInt16 (slice c 5 7)]"

definition channelInRange :: "int option \<Rightarrow> bool" where
  "channelInRange ch = (case ch of None \<Rightarrow> False | Some v \<Rightarrow> 0 \<le> v \<and> v \<le> 255)"

text \<open>Several calls of \<open>updateAnimatedShapes\<close>, one \<open>deltaTime\<close> per call, on a
  collection and on a single shape.\<close>

fun runTicks :: "real \<Rightarrow> real \<Rightarrow> real list \<Rightarrow> AnimatedShape list \<Rightarrow> AnimatedShape list" where
  "runTicks w h [] shapes = shapes"
| "runTicks w h (d # ds) shapes = runTicks w h ds (updateAnimatedShapes shapes w h d)"

fun ticks :: "real \<Rightarrow> real \<Rightarrow> real list \<Rightarrow> AnimatedShape \<Rightarrow> AnimatedShape" where
  "ticks w h [] s = s"
| "ticks w h (d # ds) s = ticks w h ds (updateShape w h (d * 0.06) s)"

text \<open>The stored position lies in the box inset by 50 from each canvas edge.\<close>

definition inBox :: "real \<Rightarrow> real \<Rightarrow> AnimatedShape \<Rightarrow> bool" where
  "inBox w h s \<longleftrightarrow>
     jsLeq (Fin 50) (shape_x s) \<and> jsLeq (shape_x s) (Fin (w - 50))
     \<and> jsLeq (Fin 50) (shape_y s) \<and> jsLeq (shape_y s) (Fin (h - 50))"

text \<open>A boundary contact in a call: the position integrated over this call's
  \<open>deltaTime\<close> lies outside the inset box in that axis.\<close>

definition contactX :: "real \<Rightarrow> real \<Rightarrow> AnimatedShape \<Rightarrow> bool" where
  "contactX w d s \<longleftrightarrow>
     jsLess (jsAdd (shape_x s) (Fin (vx s * (d * 0.06)))) (Fin 50)
     \<or> jsLess (Fin (w - 50)) (jsAdd (shape_x s) (Fin (vx s * (d * 0.06))))"

definition contactY :: "real \<Rightarrow> real \<Rightarrow> AnimatedShape \<Rightarrow> bool" where
  "contactY h d s \<longleftrightarrow>
     jsLess (jsAdd (shape_y s) (Fin (vy s * (d * 0.06)))) (Fin 50)
     \<or> jsLess (Fin (h - 50)) (jsAdd (shape_y s) (Fin (vy s * (d * 0.06))))"

fun contactsX :: "real \<Rightarrow> real \<Rightarrow> real list \<Rightarrow> AnimatedShape \<Rightarrow> nat" where
  "contactsX w h [] s = 0"
| "contactsX w h (d # ds) s =
     (if contactX w d s then 1 else 0) + contactsX w h ds (updateShape w h (d * 0.06) s)"

fun contactsY :: "real \<Rightarrow> real \<Rightarrow> real list \<Rightarrow> AnimatedShape \<Rightarrow> nat" where
  "contactsY w h [] s = 0"
| "contactsY w h (d # ds) s =
     (if contactY h d s then 1 else 0) + contactsY w h ds (updateShape w h (d * 0.06) s)"



text \<open>Sample data: an anchor circle and a texture line.\<close>

definition sampleAnchor :: RoleShape where
  "sampleAnchor =
     withRole (createCircle (Fin 400) (Fin 400) 50 (noOptions\<lparr>opt_fill := Some ''#58a6ff''\<rparr>))
       Anchor"


text \<open>How many shapes of a role a generation returned; \<open>None\<close> when it threw.\<close>

definition countRole :: "Role \<Rightarrow> error + RoleShape list \<Rightarrow> nat option" where
  "countRole r res =
     (case res of Inl e \<Rightarrow> None | Inr shapes \<Rightarrow> Some (length (filter (\<lambda>s. role s = r) shapes)))"

definition rotationsOf :: "error + RoleShape list \<Rightarrow> real list option" where
  "rotationsOf res = (case res of Inl e \<Rightarrow> None | Inr shapes \<Rightarrow> Some (map rotation shapes))"

text \<open>The generator state after the body of the text loop (two Gaussian draws and one
  range draw, whatever the index), and the rotation jitter
  \<open>rng.range(-30, 30) * (controls.chaos / 100)\<close> drawn for the point at position \<open>k\<close>.\<close>

definition textStepState :: "rng \<Rightarrow> rng" where
  "textStepState t = snd (range (- 30) 30 (snd (gaussian (snd (gaussian t)))))"

definition rotationJitter :: "GeneratorConfig \<Rightarrow> nat \<Rightarrow> real" where
  "rotationJitter cfg k =
     fst (range (- 30) 30
            (snd (gaussian (snd (gaussian ((textStepState ^^ k) (createRandomUtils (seed cfg))))))))
       * (chaos (controls cfg) / 100)"

text \<open>The first palette of \<open>palettes.ts\<close> and the default controls of \<open>page.tsx\<close>.\<close>

definition aurora :: Palette where
  "aurora =
     \<lparr>name = ''Aurora'', background = ''#0d1117'',
      anchor = [''#58a6ff'', ''#39d353'', ''#a371f7''],
      accent = [''#388bfd'', ''#2ea043'', ''#8b5cf6''],
      texture = [''#1f6feb33'', ''#23863533'', ''#6e40c933'']\<rparr>"

definition defaultControls :: Controls where
  "defaultControls =
     \<lparr>structure_ctl = 50, density = 60, scale = 50, chaos = 30, motion = 60,
      paletteVariation = 30, pathShape = circle, animationMode = Full, flowAngle = 0\<rparr>"

text \<open>A configuration on the square canvas with the given density and text.\<close>

definition squareConfig :: "real \<Rightarrow> string option \<Rightarrow> GeneratorConfig" where
  "squareConfig dens txt =
     \<lparr>width = 800, height = 800, controls = defaultControls\<lparr>density := dens\<rparr>,
      palette = aurora, seed = 1, text_in = txt\<rparr>"

text \<open>Glyph tables for the examples: the space entry that the extraction script writes,
  and a table with a two-point stroke for the letter I.\<close>

definition spaceTable :: FontPaths where
  "spaceTable = [CHR '' '' \<mapsto> []]"

definition strokeTable :: FontPaths where
  "strokeTable = [CHR '' '' \<mapsto> [], CHR ''I'' \<mapsto> [\<lparr>pt_x = 0, pt_y = 0\<rparr>, \<lparr>pt_x = 0, pt_y = 1\<rparr>]]"

definition driftConfig :: "PathShapeType \<Rightarrow> GeneratorConfig" where
  "driftConfig shType =
     \<lparr>width = 800, height = 800,
      controls = defaultControls\<lparr>density := 100, pathShape := shType, animationMode := Drift,
                   flowAngle := 45\<rparr>,
      palette = aurora, seed = 1, text_in = Some ''I''\<rparr>"

text \<open>A text-mode configuration with chaos 0 and the seed whose sum with the stream's
  constant \<open>0x6d2b79f5\<close> is \<open>2^32\<close>.\<close>

definition zeroStateConfig :: GeneratorConfig where
  "zeroStateConfig =
     \<lparr>width = 800, height = 800, controls = defaultControls\<lparr>density := 100, chaos := 0\<rparr>,
      palette = aurora, seed = 2463401483, text_in = Some ''I''\<rparr>"

text \<open>The shapes on the canvas after the first animation frame, \<open>deltaTime\<close> milliseconds
  long: \<open>updateAnimatedShapes(shapesRef.current, canvas.width, canvas.height, deltaTime)\<close>
  on the shapes of \<open>canvasShapes\<close>; the stored positions of a result; and whether every
  shape of a result lies in the inset box.\<close>

definition canvasFrame :: "FontPaths \<Rightarrow> GeneratorConfig \<Rightarrow> real \<Rightarrow> error + AnimatedShape list" where
  "canvasFrame fontPaths cfg deltaTime =
     (case canvasShapes fontPaths cfg of
        Inl e \<Rightarrow> Inl e
      | Inr shapes \<Rightarrow> Inr (updateAnimatedShapes shapes (width cfg) (height cfg) deltaTime))"

definition positionsOf :: "error + AnimatedShape list \<Rightarrow> (jsnum \<times> jsnum) list option" where
  "positionsOf res =
     (case res of Inl e \<Rightarrow> None | Inr shapes \<Rightarrow> Some (map (\<lambda>s. (shape_x s, shape_y s)) shapes))"

definition allInBox :: "real \<Rightarrow> real \<Rightarrow> error + AnimatedShape list \<Rightarrow> bool" where
  "allInBox w h res = (case res of Inl e \<Rightarrow> False | Inr shapes \<Rightarrow> list_all (inBox w h) shapes)"

section \<open>Verification\<close>

subsection \<open>Colour variation\<close>

lemma isHexDigit_cases:
  "isHexDigit c \<longleftrightarrow> c \<in> set ''0123456789abcdefABCDEF''"
  by (simp add: isHexDigit_def hexVal_def)

lemma isLowerHexDigit_hex: "isLowerHexDigit c \<Longrightarrow> isHexDigit c"
  by (auto simp: isLowerHexDigit_def isHexDigit_cases)

lemma hexVal_lt16: "isHexDigit c \<Longrightarrow> the (hexVal c) < 16"
  by (auto simp: isHexDigit_cases hexVal_def)

lemma digitChar_hexVal: "isHexDigit c \<Longrightarrow> digitChar (the (hexVal c)) = lowerHex c"
  by (auto simp: isHexDigit_cases hexVal_def digitChar_def lowerHex_def)

lemma digitChar_lower: "d < 16 \<Longrightarrow> isLowerHexDigit (digitChar d)"
proof -
  assume "d < 16"
  then have "d = 0 \<or> d = 1 \<or> d = 2 \<or> d = 3 \<or> d = 4 \<or> d = 5 \<or> d = 6 \<or> d = 7 \<or> d = 8
      \<or> d = 9 \<or> d = 10 \<or> d = 11 \<or> d = 12 \<or> d = 13 \<or> d = 14 \<or> d = 15"
    by presburger
  then show ?thesis by (auto simp: digitChar_def isLowerHexDigit_def)
qed

lemma parseInt16_pair:
  assumes "isHexDigit a" "isHexDigit b"
  shows "parseInt16 [a, b] = Some (int (16 * the (hexVal a) + the (hexVal b)))"
proof -
  have a: "\<not> isWhiteSpace a" "a \<noteq> CHR ''-''" "a \<noteq> CHR ''+''"
    using assms(1) by (auto simp: isHexDigit_cases isWhiteSpace_def)
  have b: "b \<noteq> CHR ''x''" "b \<noteq> CHR ''X''"
    using assms(2) by (auto simp: isHexDigit_cases)
  show ?thesis
    using a b assms by (simp add: parseInt16_def stripSign_def stripPrefix_def)
qed

lemma parseInt16_pair_range:
  assumes "isHexDigit a" "isHexDigit b"
  shows "channelInRange (parseInt16 [a, b])"
  using hexVal_lt16 [OF assms(1)] hexVal_lt16 [OF assms(2)]
  by (simp add: parseInt16_pair [OF assms] channelInRange_def del: of_nat_add of_nat_mult)

lemma channelString_byte:
  assumes "0 \<le> v" "v \<le> 255"
  shows "channelString (Some v) = [digitChar (nat v div 16), digitChar (nat v mod 16)]"
proof (cases "nat v < 16")
  case True
  then show ?thesis
    by (simp add: channelString_def padStart2_def toString16.simps [of "nat v"] digitChar_def)
next
  case False
  moreover have "nat v div 16 < 16" using assms by auto
  ultimately show ?thesis
    by (simp add: channelString_def padStart2_def toString16.simps [of "nat v"]
        toString16.simps [of "nat v div 16"])
qed

lemma newChannel_range:
  "\<exists>w. newChannel (Some v) adj = Some w \<and> 0 \<le> w \<and> w \<le> 255"
  by (simp add: newChannel_def)

lemma newChannel_zero: "0 \<le> v \<Longrightarrow> v \<le> 255 \<Longrightarrow> newChannel (Some v) 0 = Some v"
  by (simp add: newChannel_def mathRound_def)

lemma adjust_zero: "adjust 0 sd = 0"
  by (simp add: adjust_def variationAmount_def)

lemma channelString_lower:
  assumes "0 \<le> w" "w \<le> 255"
  shows "\<exists>d1 d2. channelString (Some w) = [d1, d2] \<and> isLowerHexDigit d1 \<and> isLowerHexDigit d2"
proof -
  have "nat w div 16 < 16" "nat w mod 16 < 16" using assms by auto
  then show ?thesis
    by (simp add: channelString_byte [OF assms] digitChar_lower)
qed

lemma hexColor_split:
  assumes "isHexColor c"
  obtains a1 a2 b1 b2 c1 c2 where "c = [CHR ''#'', a1, a2, b1, b2, c1, c2]"
    "isHexDigit a1" "isHexDigit a2" "isHexDigit b1" "isHexDigit b2" "isHexDigit c1" "isHexDigit c2"
proof -
  from assms have "length c = 7" by (simp add: isHexColor_def)
  then obtain x0 x1 x2 x3 x4 x5 x6 where c: "c = [x0, x1, x2, x3, x4, x5, x6]"
    by (auto simp: numeral_eq_Suc length_Suc_conv)
  with assms show ?thesis
    by (intro that [of x1 x2 x3 x4 x5 x6]) (simp_all add: isHexColor_def)
qed

lemma channel_of_pair_valid:
  assumes "isHexDigit a" "isHexDigit b"
  shows "\<exists>d1 d2. channelString (newChannel (parseInt16 [a, b]) adj) = [d1, d2]
           \<and> isLowerHexDigit d1 \<and> isLowerHexDigit d2"
proof -
  obtain w where "newChannel (parseInt16 [a, b]) adj = Some w" "0 \<le> w" "w \<le> 255"
    using newChannel_range parseInt16_pair [OF assms] by metis
  then show ?thesis using channelString_lower by simp
qed

lemma channel_of_pair_zero:
  assumes "isHexDigit a" "isHexDigit b"
  shows "channelString (newChannel (parseInt16 [a, b]) 0) = [lowerHex a, lowerHex b]"
proof -
  let ?n = "16 * the (hexVal a) + the (hexVal b)"
  have lt: "the (hexVal a) < 16" "the (hexVal b) < 16"
    using assms by (simp_all add: hexVal_lt16)
  then have n: "int ?n \<le> 255" by simp
  have "newChannel (parseInt16 [a, b]) 0 = Some (int ?n)"
    using parseInt16_pair [OF assms] newChannel_zero [of "int ?n"] n by simp
  moreover have "?n div 16 = the (hexVal a)" "?n mod 16 = the (hexVal b)"
    using lt by simp_all
  ultimately show ?thesis
    using channelString_byte [of "int ?n"] n assms
    by (simp add: digitChar_hexVal del: of_nat_add of_nat_mult)
qed

lemma varyColor_lower:
  assumes "isHexColor c"
  shows "isLowerHexColor (varyColor c variation sd)"
proof -
  from assms obtain a1 a2 b1 b2 c1 c2 where c: "c = [CHR ''#'', a1, a2, b1, b2, c1, c2]"
    and h: "isHexDigit a1" "isHexDigit a2" "isHexDigit b1" "isHexDigit b2" "isHexDigit c1" "isHexDigit c2"
    by (rule hexColor_split)
  have sl: "slice c 1 3 = [a1, a2]" "slice c 3 5 = [b1, b2]" "slice c 5 7 = [c1, c2]"
    by (simp_all add: c slice_def)
  obtain r1 r2 where r: "channelString (newChannel (parseInt16 [a1, a2]) (adjust variation sd)) = [r1, r2]"
      "isLowerHexDigit r1" "isLowerHexDigit r2"
    using channel_of_pair_valid [OF h(1,2)] by blast
  obtain g1 g2 where g: "channelString (newChannel (parseInt16 [b1, b2]) (adjust variation sd)) = [g1, g2]"
      "isLowerHexDigit g1" "isLowerHexDigit g2"
    using channel_of_pair_valid [OF h(3,4)] by blast
  obtain e1 e2 where e: "channelString (newChannel (parseInt16 [c1, c2]) (adjust variation sd)) = [e1, e2]"
      "isLowerHexDigit e1" "isLowerHexDigit e2"
    using channel_of_pair_valid [OF h(5,6)] by blast
  show ?thesis
    unfolding varyColor_def sl Let_def r(1) g(1) e(1)
    using r(2,3) g(2,3) e(2,3) by (simp add: isLowerHexColor_def)
qed

lemma varyColor_zero:
  assumes "isHexColor c"
  shows "varyColor c 0 sd = map lowerHex c"
proof -
  from assms obtain a1 a2 b1 b2 c1 c2 where c: "c = [CHR ''#'', a1, a2, b1, b2, c1, c2]"
    and h: "isHexDigit a1" "isHexDigit a2" "isHexDigit b1" "isHexDigit b2" "isHexDigit c1" "isHexDigit c2"
    by (rule hexColor_split)
  have sl: "slice c 1 3 = [a1, a2]" "slice c 3 5 = [b1, b2]" "slice c 5 7 = [c1, c2]"
    by (simp_all add: c slice_def)
  show ?thesis
    unfolding varyColor_def sl Let_def adjust_zero
      channel_of_pair_zero [OF h(1,2)] channel_of_pair_zero [OF h(3,4)]
      channel_of_pair_zero [OF h(5,6)]
    by (simp add: c lowerHex_def)
qed

lemma lowerHexColor_channels:
  assumes "isLowerHexColor c"
  shows "list_all channelInRange (channelsOf c)"
proof -
  from assms have "length c = 7" by (simp add: isLowerHexColor_def)
  then obtain x0 x1 x2 x3 x4 x5 x6 where c: "c = [x0, x1, x2, x3, x4, x5, x6]"
    by (auto simp: numeral_eq_Suc length_Suc_conv)
  with assms have h: "isHexDigit x1" "isHexDigit x2" "isHexDigit x3" "isHexDigit x4"
      "isHexDigit x5" "isHexDigit x6"
    by (simp_all add: isLowerHexColor_def isLowerHexDigit_hex)
  have sl: "slice c 1 3 = [x1, x2]" "slice c 3 5 = [x3, x4]" "slice c 5 7 = [x5, x6]"
    by (simp_all add: c slice_def)
  show ?thesis
    unfolding channelsOf_def sl
    using parseInt16_pair_range [OF h(1,2)] parseInt16_pair_range [OF h(3,4)]
      parseInt16_pair_range [OF h(5,6)]
    by simp
qed

lemma lowerHex_idem: "isLowerHexDigit ch \<Longrightarrow> lowerHex ch = ch"
  by (auto simp: isLowerHexDigit_def lowerHex_def)

lemma lowerHexColor_fixed:
  assumes "isLowerHexColor c"
  shows "map lowerHex c = c"
proof -
  from assms have "length c = 7" by (simp add: isLowerHexColor_def)
  then obtain x0 x1 x2 x3 x4 x5 x6 where c: "c = [x0, x1, x2, x3, x4, x5, x6]"
    by (auto simp: numeral_eq_Suc length_Suc_conv)
  with assms show ?thesis
    by (simp add: isLowerHexColor_def lowerHex_idem) (simp add: lowerHex_def)
qed

lemma lowerHexColor_isHexColor: "isLowerHexColor c \<Longrightarrow> isHexColor c"
  by (auto simp: isLowerHexColor_def isHexColor_def list_all_iff isLowerHexDigit_hex)

text \<open>
  Claim C8, as the code has it.  For every colour string \<open>c\<close> of the form \<open>#rrggbb\<close>,
  every variation in 0..100 and every integer seed whose hash the source computes exactly
  (\<open>|seed| * 9301 + 49297\<close> at most \<open>2^53\<close>), \<open>varyColor c variation seed\<close> is again of
  the form \<open>#rrggbb\<close>, written with lower-case digits, and each of its channels reads
  back as a number in 0..255.  For variation 0 the result is \<open>c\<close> with its hexadecimal
  digits in lower case, for any such seed: the same colour value, and the same string
  when \<open>c\<close> is written in lower case.
\<close>

theorem varyColor_valid_hex:
  assumes "isHexColor c" "0 \<le> variation" "variation \<le> 100" "exactSeed sd"
  shows "isLowerHexColor (varyColor c variation sd)
       \<and> list_all channelInRange (channelsOf (varyColor c variation sd))
       \<and> varyColor c 0 sd = map lowerHex c
       \<and> (isLowerHexColor c \<longrightarrow> varyColor c 0 sd = c)"
  using assms(1) varyColor_lower [OF assms(1), of variation sd] varyColor_zero [OF assms(1), of sd]
  by (simp add: lowerHexColor_channels lowerHexColor_fixed)

theorem varyColor_valid_hex_witness:
  "isHexColor ''#58a6ff'' \<and> (0 :: real) \<le> 30 \<and> (30 :: real) \<le> 100 \<and> exactSeed 12
   \<and> isLowerHexColor ''#58a6ff''
   \<and> isLowerHexColor (varyColor ''#58a6ff'' 30 12)
   \<and> varyColor ''#58a6ff'' 0 12 = ''#58a6ff''"
proof -
  have h: "isHexColor ''#58a6ff''"
    by (simp add: isHexColor_def isHexDigit_cases)
  have l: "isLowerHexColor ''#58a6ff''"
    by (simp add: isLowerHexColor_def isLowerHexDigit_def)
  have e: "exactSeed 12" by (simp add: exactSeed_def)
  have v: "(0 :: real) \<le> 30" "(30 :: real) \<le> 100" by simp_all
  from varyColor_valid_hex [OF h v e] h l e v show ?thesis by blast
qed

text \<open>As stated (the result at variation 0 is \<open>c\<close> unchanged) the claim fails for a
  colour written with upper-case digits: \<open>toString(16)\<close> writes lower-case ones.\<close>

theorem varyColor_zero_uppercase_changed:
  "isHexColor ''#FFAA00'' \<and> exactSeed 7 \<and> varyColor ''#FFAA00'' 0 7 \<noteq> ''#FFAA00''"
proof -
  have h: "isHexColor ''#FFAA00''"
    by (simp add: isHexColor_def isHexDigit_cases)
  have "varyColor ''#FFAA00'' 0 7 = ''#ffaa00''"
    using varyColor_zero [OF h, of 7] by (simp add: lowerHex_def)
  with h show ?thesis by (simp add: exactSeed_def)
qed

subsection \<open>The hash of \<open>varyColor\<close>\<close>

text \<open>For seeds from \<open>-5\<close> upwards the dividend is not negative, the hash lies in
  \<open>[0, 1)\<close> and the adjustment at variation 100 is within 30 per cent.\<close>

lemma jsRem_nonneg: "0 \<le> a \<Longrightarrow> 0 < b \<Longrightarrow> jsRem a b = a mod b"
  by (simp add: jsRem_def sgn_if)

lemma lcgRnd_unit_interval:
  assumes "- 5 \<le> sd"
  shows "0 \<le> lcgRnd sd \<and> lcgRnd sd < 1"
proof -
  have "0 \<le> sd * 9301 + 49297" using assms by simp
  then have "lcgHash sd = (sd * 9301 + 49297) mod 233280"
    by (simp add: lcgHash_def jsRem_nonneg)
  then have "0 \<le> lcgHash sd" "lcgHash sd < 233280" by simp_all
  then show ?thesis by (simp add: lcgRnd_def)
qed

lemma adjust_bound_nonneg_seed:
  assumes "- 5 \<le> sd"
  shows "\<bar>adjust 100 sd\<bar> \<le> 0.3"
proof -
  have e: "adjust 100 sd = (lcgRnd sd - 1 / 2) * (3 / 5)"
    by (simp add: adjust_def variationAmount_def)
  have b: "0 \<le> lcgRnd sd" "lcgRnd sd < 1"
    using lcgRnd_unit_interval [OF assms] by simp_all
  show ?thesis unfolding e abs_le_iff using b by (simp add: field_simps)
qed

lemma lcgHash_neg25: "lcgHash (- 25) = - 183228"
  by (simp add: lcgHash_def jsRem_def)

text \<open>
  Claim C9 says that for every integer seed, negative ones included, the hash
  \<open>((seed * 9301 + 49297) % 233280) / 233280\<close> lies in \<open>[0, 1)\<close>, so that the
  adjustment at variation 100 stays within 30 per cent of the channel value.  The
  remainder operator of the source keeps the sign of the dividend: at seed \<open>-25\<close> the
  hash is negative, the adjustment is about \<open>-77\<close> per cent, and the grey \<open>#808080\<close>
  becomes \<open>#1d1d1d\<close>.
\<close>

theorem varyColor_negative_seed:
  "lcgRnd (- 25) = - 183228 / 233280 \<and> \<not> (0 \<le> lcgRnd (- 25))
   \<and> adjust 100 (- 25) < - 0.3
   \<and> varyColor ''#808080'' 100 (- 25) = ''#1d1d1d''"
proof -
  have r: "lcgRnd (- 25) = - 183228 / 233280"
    by (simp add: lcgRnd_def lcgHash_neg25)
  have a: "adjust 100 (- 25) = - (24989 / 32400)"
    by (simp add: adjust_def r variationAmount_def)
  have p: "parseInt16 ''80'' = Some 128"
    using parseInt16_pair [of "CHR ''8''" "CHR ''0''"] by (simp add: isHexDigit_cases hexVal_def)
  have n: "newChannel (Some 128) (- (24989 / 32400)) = Some 29"
    by (simp add: newChannel_def mathRound_def)
  have c: "channelString (Some 29) = ''1d''"
    using channelString_byte [of 29] by (simp add: digitChar_def)
  have "varyColor ''#808080'' 100 (- 25) = ''#1d1d1d''"
    by (simp add: varyColor_def slice_def p a n c Let_def)
  with r a show ?thesis by simp
qed

subsection \<open>Animation: boundary reflection\<close>

lemma jsAdd_Fin_NaN_iff [simp]: "jsAdd a (Fin r) = NaN \<longleftrightarrow> a = NaN"
  by (cases a) simp_all

text \<open>One axis of the bounce: a position that is not NaN ends within the bounds, a NaN
  position stays NaN (both comparisons are false).\<close>

lemma reflect_axis:
  assumes "lo \<le> hi" "a \<noteq> NaN"
  shows "jsLeq (Fin lo)
           (if jsLess a (Fin lo) \<or> jsLess (Fin hi) a then jsMax (Fin lo) (jsMin (Fin hi) a) else a)
       \<and> jsLeq (if jsLess a (Fin lo) \<or> jsLess (Fin hi) a then jsMax (Fin lo) (jsMin (Fin hi) a)
                 else a) (Fin hi)"
  using assms by (cases a) auto

lemma updateShape_x:
  "shape_x (updateShape w h dt s) =
     (let x1 = jsAdd (shape_x s) (Fin (vx s * dt))
      in if jsLess x1 (Fin 50) \<or> jsLess (Fin (w - 50)) x1
         then jsMax (Fin 50) (jsMin (Fin (w - 50)) x1) else x1)"
  by (simp add: updateShape_def Let_def split: prod.splits)

lemma updateShape_y:
  "shape_y (updateShape w h dt s) =
     (let y1 = jsAdd (shape_y s) (Fin (vy s * dt))
      in if jsLess y1 (Fin 50) \<or> jsLess (Fin (h - 50)) y1
         then jsMax (Fin 50) (jsMin (Fin (h - 50)) y1) else y1)"
  by (simp add: updateShape_def Let_def split: prod.splits)

lemma updateShape_inBox:
  assumes "100 \<le> w" "100 \<le> h" "shape_x s \<noteq> NaN" "shape_y s \<noteq> NaN"
  shows "inBox w h (updateShape w h dt s)"
proof -
  have "(50 :: real) \<le> w - 50" "(50 :: real) \<le> h - 50" using assms(1,2) by simp_all
  moreover have "jsAdd (shape_x s) (Fin (vx s * dt)) \<noteq> NaN"
    "jsAdd (shape_y s) (Fin (vy s * dt)) \<noteq> NaN"
    using assms(3,4) by simp_all
  ultimately show ?thesis
    unfolding inBox_def updateShape_x updateShape_y Let_def
    using reflect_axis [of 50 "w - 50" "jsAdd (shape_x s) (Fin (vx s * dt))"]
      reflect_axis [of 50 "h - 50" "jsAdd (shape_y s) (Fin (vy s * dt))"]
    by blast
qed

lemma updateShape_NaN:
  "shape_x s = NaN \<Longrightarrow> shape_x (updateShape w h dt s) = NaN"
  "shape_y s = NaN \<Longrightarrow> shape_y (updateShape w h dt s) = NaN"
  by (simp_all add: updateShape_x updateShape_y)

lemma inBox_not_NaN: "inBox w h s \<Longrightarrow> shape_x s \<noteq> NaN \<and> shape_y s \<noteq> NaN"
  by (auto simp: inBox_def)

lemma updateShape_vx:
  "vx (updateShape w h (d * 0.06) s) = (if contactX w d s then - vx s else vx s)"
  by (auto simp: updateShape_def contactX_def Let_def split: prod.splits)

lemma updateShape_vy:
  "vy (updateShape w h (d * 0.06) s) = (if contactY h d s then - vy s else vy s)"
  by (auto simp: updateShape_def contactY_def Let_def split: prod.splits)

lemma ticks_Nil_fun: "ticks w h [] = (\<lambda>s. s)"
  by (rule ext) simp

lemma runTicks_map: "runTicks w h ds shapes = map (ticks w h ds) shapes"
proof (induction ds arbitrary: shapes)
  case Nil
  show ?case by (simp add: ticks_Nil_fun)
next
  case (Cons d ds)
  show ?case by (simp add: Cons.IH updateAnimatedShapes_def o_def)
qed

lemma ticks_vx: "vx (ticks w h ds s) = (- 1) ^ contactsX w h ds s * vx s"
proof (induction ds arbitrary: s)
  case Nil
  show ?case by simp
next
  case (Cons d ds)
  show ?case unfolding ticks.simps contactsX.simps Cons.IH updateShape_vx by simp
qed

lemma ticks_vy: "vy (ticks w h ds s) = (- 1) ^ contactsY w h ds s * vy s"
proof (induction ds arbitrary: s)
  case Nil
  show ?case by simp
next
  case (Cons d ds)
  show ?case unfolding ticks.simps contactsY.simps Cons.IH updateShape_vy by simp
qed

lemma ticks_inBox:
  assumes "100 \<le> w" "100 \<le> h" "ds \<noteq> []" "shape_x s \<noteq> NaN" "shape_y s \<noteq> NaN"
  shows "inBox w h (ticks w h ds s)"
  using assms(3-5)
proof (induction ds arbitrary: s)
  case Nil
  then show ?case by simp
next
  case (Cons d ds)
  have b: "inBox w h (updateShape w h (d * 0.06) s)"
    using updateShape_inBox [OF assms(1,2) Cons.prems(2,3)] .
  show ?case
  proof (cases "ds = []")
    case True
    then show ?thesis using b by simp
  next
    case False
    then show ?thesis using Cons.IH [OF False] inBox_not_NaN [OF b] by simp
  qed
qed

lemma ticks_NaN:
  "shape_x s = NaN \<Longrightarrow> shape_x (ticks w h ds s) = NaN"
  by (induction ds arbitrary: s) (simp_all add: updateShape_NaN)

text \<open>The reflection for positions that are numbers.  With width and height at least 100,
  after each call every such shape's stored position lies in the inset box; a call negates
  a velocity component exactly when it is a boundary contact in that axis, so over any
  sequence of calls the component is the initial one times \<open>(-1)\<close> to the number of
  contacts.  A position that is NaN stays NaN through every call.\<close>

lemma reflection_of_numbers:
  assumes "100 \<le> w" "100 \<le> h"
    and "list_all (\<lambda>s. shape_x s \<noteq> NaN \<and> shape_y s \<noteq> NaN) shapes"
  shows "list_all (inBox w h) (updateAnimatedShapes shapes w h d)
       \<and> (ds \<noteq> [] \<longrightarrow> list_all (inBox w h) (runTicks w h ds shapes))
       \<and> (\<forall>i < length shapes.
             vx (runTicks w h ds shapes ! i) = (- 1) ^ contactsX w h ds (shapes ! i) * vx (shapes ! i)
           \<and> vy (runTicks w h ds shapes ! i) = (- 1) ^ contactsY w h ds (shapes ! i) * vy (shapes ! i))"
proof (intro conjI)
  show "list_all (inBox w h) (updateAnimatedShapes shapes w h d)"
    using assms(3)
    by (simp add: updateAnimatedShapes_def list_all_iff updateShape_inBox [OF assms(1,2)])
  show "ds \<noteq> [] \<longrightarrow> list_all (inBox w h) (runTicks w h ds shapes)"
    using assms(3) by (simp add: runTicks_map list_all_iff ticks_inBox [OF assms(1,2)])
  show "\<forall>i < length shapes.
             vx (runTicks w h ds shapes ! i) = (- 1) ^ contactsX w h ds (shapes ! i) * vx (shapes ! i)
           \<and> vy (runTicks w h ds shapes ! i) = (- 1) ^ contactsY w h ds (shapes ! i) * vy (shapes ! i)"
    by (simp add: runTicks_map ticks_vx ticks_vy)
qed

lemma position_NaN_stays:
  assumes "shape_x s = NaN"
  shows "\<not> inBox w h (ticks w h ds s)"
  using ticks_NaN [OF assms, of w h ds] by (auto simp: inBox_def)

subsection \<open>Animation: pulse\<close>











lemma animateShape_velocity:
  "vx (fst (animateShape shape i ch mo st s))
     = (fst (animRandom (advance i s)) - 0.5) * 3 * (ch / 100) * roleMultiplier (role shape)
         * (mo / 100) * (if st then 0 else 1)"
  "vy (fst (animateShape shape i ch mo st s))
     = (fst (animRandom (snd (animRandom (advance i s)))) - 0.5) * 3 * (ch / 100)
         * roleMultiplier (role shape) * (mo / 100) * (if st then 0 else 1)"
  by (simp_all add: animateShape_def Let_def split: prod.splits)



lemma animateAll_all:
  assumes "\<And>shape i s. P (fst (animateShape shape i ch mo st s))"
  shows "list_all P (animateAll xs ch mo st s)"
proof (induction xs arbitrary: s)
  case Nil
  show ?case by simp
next
  case (Cons x xs)
  obtain i shape where x: "x = (i, shape)" by (cases x)
  obtain a s' where a: "animateShape shape i ch mo st s = (a, s')"
    by (cases "animateShape shape i ch mo st s")
  have "P a" using assms [of shape i s] a by simp
  then show ?case using Cons.IH [of s'] by (simp add: x a)
qed


lemma animateShape_position:
  "shape_x (fst (animateShape shape i ch mo st s)) = shape_x shape"
  "shape_y (fst (animateShape shape i ch mo st s)) = shape_y shape"
  by (simp_all add: animateShape_def Let_def split: prod.splits)




subsection \<open>Animation: velocities as the caller wires them\<close>

text \<open>The formula of the velocities, with the scale factor that the truthiness of the
  fifth argument selects, is \<open>animateShape_velocity\<close> above.  The caller passes the mode
  string, which is not empty for any mode, so every velocity is zero in every mode.\<close>

lemma modeString_nonempty: "modeString m \<noteq> []"
  by (cases m) simp_all

lemma canvas_velocities_zero:
  "list_all (\<lambda>s. vx s = 0 \<and> vy s = 0)
     (addAnimationProperties base chaosV motionV sd (JSString (modeString m)))"
  unfolding addAnimationProperties_def
  by (rule animateAll_all) (simp add: animateShape_velocity modeString_nonempty)

lemma animRandom_1: "animRandom 1 = (58598 / 233280, 58598)"
  by (simp add: animRandom_def jsRem_def)

lemma animRandom_58598: "animRandom 58598 = (127215 / 233280, 127215)"
  by (simp add: animRandom_def jsRem_def)

text \<open>
  Claim C1 says that the velocity components are
  \<open>(rand - 0.5) * 3 * (chaos / 100) * roleWeight * (motion / 100)\<close> and are zero exactly in
  the mode "stationary".  As the caller wires it, in mode "full" with chaos 100, motion
  100 and seed 1 the velocity of an anchor is zero, where the formula (the value the same
  function gives for a false fifth argument) is not.
\<close>

theorem velocities_zero_in_full_mode:
  "map vx (addAnimationProperties [sampleAnchor] 100 100 1 (JSString (modeString Full))) = [0]
   \<and> map vy (addAnimationProperties [sampleAnchor] 100 100 1 (JSString (modeString Full))) = [0]
   \<and> map vx (addAnimationProperties [sampleAnchor] 100 100 1 (JSBool False))
       = [(58598 / 233280 - 0.5) * 3 * 0.3]
   \<and> map vy (addAnimationProperties [sampleAnchor] 100 100 1 (JSBool False))
       = [(127215 / 233280 - 0.5) * 3 * 0.3]
   \<and> (58598 / 233280 - 0.5) * 3 * 0.3 \<noteq> (0 :: real)"
proof -
  have r: "role sampleAnchor = Anchor" by (simp add: sampleAnchor_def withRole_def)
  have e: "\<And>st. addAnimationProperties [sampleAnchor] 100 100 1 st
      = [fst (animateShape sampleAnchor 0 100 100
                (truthy (if st = JSUndefined then JSBool False else st)) 1)]"
    by (simp add: addAnimationProperties_def split: prod.splits)
  show ?thesis
    unfolding e
    by (simp add: animateShape_velocity r roleMultiplier_def animRandom_1 animRandom_58598)
qed

subsection \<open>Generator: the random stream and the loops\<close>

lemma unat32_real_bound: "real (unat (w :: 32 word)) < 4294967296"
proof -
  have "unat w < 4294967296" using unsigned_less [of w, where ?'a = nat] by simp
  then have "real (unat w) < real 4294967296" by (simp only: of_nat_less_iff)
  then show ?thesis by (simp only: of_nat_numeral)
qed

lemma random_bounds: "0 \<le> fst (random t) \<and> fst (random t) < 1"
proof -
  have "real (unat (nextState t XOR drop_bit 14 (nextState t))) < 4294967296"
    by (rule unat32_real_bound)
  moreover have "0 \<le> real (unat (nextState t XOR drop_bit 14 (nextState t)))"
    by (rule of_nat_0_le_iff)
  ultimately show ?thesis by (simp add: random_def Let_def)
qed

lemma pick_nonempty:
  assumes "arr \<noteq> []"
  shows "\<exists>v. fst (pick arr t) = Some v \<and> v \<in> set arr"
proof -
  obtain r t' where rt: "random t = (r, t')" by (cases "random t")
  with random_bounds [of t] have r: "0 \<le> r" "r < 1" by simp_all
  let ?n = "real (length arr)"
  have pos: "0 < ?n" using assms by simp
  have "r * ?n < ?n" using r pos by simp
  then have "\<lfloor>r * ?n\<rfloor> < int (length arr)" by (simp add: floor_less_iff)
  moreover have "0 \<le> \<lfloor>r * ?n\<rfloor>" using r by simp
  ultimately have "nat \<lfloor>r * ?n\<rfloor> < length arr" by (simp add: nat_less_iff)
  then show ?thesis by (simp add: pick_def rt)
qed

lemma pick_SomeD: "pick arr t = (v, t') \<Longrightarrow> arr \<noteq> [] \<Longrightarrow> v \<noteq> None"
  using pick_nonempty [of arr t] by auto

lemma varyColorOpt_Inl_iff [simp]: "varyColorOpt b v s = Inl e \<longleftrightarrow> b = None"
  by (cases e) (simp add: varyColorOpt_def split: option.splits)

lemma role_withRole [simp]: "role (withRole s r) = r"
  by (simp add: withRole_def)

lemma loopM_spec:
  assumes "\<And>i t. i \<in> set is \<Longrightarrow> \<exists>v t'. body i t = Inr (v, t') \<and> P v"
  shows "\<exists>vs t'. loopM body is t = Inr (vs, t') \<and> length vs = length is \<and> list_all P vs"
  using assms
proof (induction "is" arbitrary: t)
  case Nil
  show ?case by simp
next
  case (Cons i "is")
  obtain v t1 where b: "body i t = Inr (v, t1)" "P v" using Cons.prems [of i t] by auto
  obtain vs t2 where "loopM body is t1 = Inr (vs, t2)" "length vs = length is" "list_all P vs"
    using Cons.IH [of t1] Cons.prems by auto
  with b show ?case by simp
qed

lemma loopM_sound:
  assumes "\<And>i t v t'. body i t = Inr (v, t') \<Longrightarrow> P v"
  shows "loopM body is t = Inr (vs, t') \<Longrightarrow> length vs = length is \<and> list_all P vs"
  using assms by (induction "is" arbitrary: t vs t') (auto split: sum.splits prod.splits)

lemma loopM_Inl:
  assumes "\<And>i t e. body i t = Inl e \<Longrightarrow> Q"
  shows "loopM body is t = Inl e \<Longrightarrow> Q"
  using assms by (induction "is" arbitrary: t) (auto split: sum.splits prod.splits)

lemma anchorShape_role [simp]: "role (fst (anchorShape c sz x y color shType t)) = Anchor"
  by (simp add: anchorShape_def Let_def split: prod.splits)

lemma accentShape_role [simp]: "role (fst (accentShape c sz x y color t)) = Accent"
  by (simp add: accentShape_def Let_def split: prod.splits)

lemma textureShape_role [simp]: "role (fst (textureShape c sz x y color shType t)) = Texture"
  by (simp add: textureShape_def Let_def split: prod.splits)

lemma anchorStep_Inr:
  "anchorStep w h c p sd sz g gs i t = Inr (v, t') \<Longrightarrow> role v = Anchor"
  by (auto simp: anchorStep_def Let_def split: prod.splits sum.splits)
    (metis anchorShape_role fst_conv)

lemma anchorStep_total:
  assumes "anchor p \<noteq> []"
  shows "\<exists>v t'. anchorStep w h c p sd sz g gs i t = Inr (v, t') \<and> role v = Anchor"
proof -
  obtain x y t1 where a: "anchorPlacement w h c sz g gs i t = (x, y, t1)"
    by (cases "anchorPlacement w h c sz g gs i t")
  obtain st t2 where b: "pick [circle, rectangle, circle] t1 = (st, t2)"
    by (cases "pick [circle, rectangle, circle] t1")
  obtain base t3 where d: "pick (anchor p) t2 = (Some base, t3)"
    using pick_nonempty [OF assms, of t2] by (cases "pick (anchor p) t2") auto
  obtain v t' where e: "anchorShape c sz x y (varyColor base (paletteVariation c) (sd + int i)) st t3 = (v, t')"
    by (cases "anchorShape c sz x y (varyColor base (paletteVariation c) (sd + int i)) st t3")
  have "role v = Anchor" using anchorShape_role [of c sz x y _ st t3] e by (metis fst_conv)
  then show ?thesis by (simp add: anchorStep_def a b d e varyColorOpt_def)
qed

lemma anchorStep_Inl: "anchorStep w h c p sd sz g gs i t = Inl e \<Longrightarrow> anchor p = []"
  using anchorStep_total [of p w h c sd sz g gs i t] by auto

lemma accentStep_Inr:
  "accentStep w h c p anchors sd sz i t = Inr (v, t') \<Longrightarrow> role v = Accent"
  by (auto simp: accentStep_def Let_def split: prod.splits sum.splits)
    (metis accentShape_role fst_conv)

lemma accentStep_total:
  assumes "accent p \<noteq> []"
  shows "\<exists>v t'. accentStep w h c p anchors sd sz i t = Inr (v, t') \<and> role v = Accent"
proof -
  obtain x0 y0 t1 where a: "accentPlacement w h c anchors sz t = (x0, y0, t1)"
    by (cases "accentPlacement w h c anchors sz t")
  obtain x y t2 where b: "accentDrift c sz x0 y0 t1 = (x, y, t2)"
    by (cases "accentDrift c sz x0 y0 t1")
  obtain base t3 where d: "pick (accent p) t2 = (Some base, t3)"
    using pick_nonempty [OF assms, of t2] by (cases "pick (accent p) t2") auto
  obtain v t' where e: "accentShape c sz x y (varyColor base (paletteVariation c) (sd + int i + 100)) t3 = (v, t')"
    by (cases "accentShape c sz x y (varyColor base (paletteVariation c) (sd + int i + 100)) t3")
  have "role v = Accent" using accentShape_role [of c sz x y _ t3] e by (metis fst_conv)
  then show ?thesis by (simp add: accentStep_def a b d e varyColorOpt_def)
qed

lemma accentStep_Inl: "accentStep w h c p anchors sd sz i t = Inl e \<Longrightarrow> accent p = []"
  using accentStep_total [of p w h c anchors sd sz i t] by auto

lemma textureStep_total:
  "\<exists>v t'. textureStep w h c p sz i t = Inr (v, t') \<and> role v = Texture"
proof -
  obtain x t1 where a: "range 0 w t = (x, t1)" by (cases "range 0 w t")
  obtain y t2 where b: "range 0 h t1 = (y, t2)" by (cases "range 0 h t1")
  obtain color t3 where d: "pick (texture p) t2 = (color, t3)" by (cases "pick (texture p) t2")
  obtain st t4 where e: "pick [circle, line, circle] t3 = (st, t4)"
    by (cases "pick [circle, line, circle] t3")
  obtain v t' where f: "textureShape c sz (Fin x) (Fin y) color st t4 = (v, t')"
    by (cases "textureShape c sz (Fin x) (Fin y) color st t4")
  have "role v = Texture"
    using textureShape_role [of c sz "Fin x" "Fin y" color st t4] f by (metis fst_conv)
  then show ?thesis by (simp add: textureStep_def a b d e f)
qed

subsection \<open>Generator: the three phases and their counts\<close>

lemma generateAnchors_ok:
  assumes "anchor p \<noteq> []"
  shows "\<exists>shapes t'. generateAnchors w h c p t sd = Inr (shapes, t')
           \<and> length shapes = anchorCount c \<and> list_all (\<lambda>s. role s = Anchor) shapes"
proof -
  have "\<exists>vs t'. loopM body [0..<anchorCount c] t = Inr (vs, t')
          \<and> length vs = length [0..<anchorCount c] \<and> list_all (\<lambda>s. role s = Anchor) vs"
    if "body = anchorStep w h c p sd sz g gs" for body sz g gs
    unfolding that by (rule loopM_spec) (rule anchorStep_total [OF assms])
  then show ?thesis by (simp add: generateAnchors_def Let_def)
qed

lemma generateAccents_ok:
  assumes "accentCount c = 0 \<or> accent p \<noteq> []"
  shows "\<exists>shapes t'. generateAccents w h c p t anchors sd = Inr (shapes, t')
           \<and> length shapes = accentCount c \<and> list_all (\<lambda>s. role s = Accent) shapes"
proof (cases "accentCount c = 0")
  case True
  then show ?thesis by (simp add: generateAccents_def)
next
  case False
  with assms have "accent p \<noteq> []" by simp
  then have "\<exists>vs t'. loopM body [0..<accentCount c] t = Inr (vs, t')
          \<and> length vs = length [0..<accentCount c] \<and> list_all (\<lambda>s. role s = Accent) vs"
    if "body = accentStep w h c p anchors sd sz" for body sz
    unfolding that by (intro loopM_spec accentStep_total)
  then show ?thesis by (simp add: generateAccents_def Let_def)
qed

lemma generateTexture_ok:
  "\<exists>shapes t'. generateTexture w h c p t = Inr (shapes, t')
     \<and> length shapes = (if density c < 40 then 0 else textureCount c)
     \<and> list_all (\<lambda>s. role s = Texture) shapes"
proof (cases "density c < 40")
  case True
  then show ?thesis by (simp add: generateTexture_def)
next
  case False
  have "\<exists>vs t'. loopM body [0..<textureCount c] t = Inr (vs, t')
          \<and> length vs = length [0..<textureCount c] \<and> list_all (\<lambda>s. role s = Texture) vs"
    if "body = textureStep w h c p sz" for body sz
    unfolding that by (intro loopM_spec textureStep_total)
  with False show ?thesis by (simp add: generateTexture_def Let_def)
qed

lemma generateTexture_skipped: "density c < 40 \<Longrightarrow> generateTexture w h c p t = Inr ([], t)"
  by (simp add: generateTexture_def)

lemma count_single_role:
  "list_all (\<lambda>s. role s = r) xs \<Longrightarrow>
     length (filter (\<lambda>s. role s = r') xs) = (if r = r' then length xs else 0)"
  by (induction xs) auto

lemma freeForm_counts:
  assumes "anchor (palette cfg) \<noteq> []"
    and "accentCount (controls cfg) = 0 \<or> accent (palette cfg) \<noteq> []"
  shows "countRole Anchor (generateFreeForm cfg) = Some (anchorCount (controls cfg))
       \<and> countRole Accent (generateFreeForm cfg) = Some (accentCount (controls cfg))
       \<and> countRole Texture (generateFreeForm cfg)
           = Some (if density (controls cfg) < 40 then 0 else textureCount (controls cfg))"
proof -
  let ?w = "width cfg" and ?h = "height cfg" and ?c = "controls cfg" and ?p = "palette cfg"
  let ?sd = "seed cfg"
  obtain as t1 where a: "generateAnchors ?w ?h ?c ?p (createRandomUtils ?sd) ?sd = Inr (as, t1)"
      "length as = anchorCount ?c" "list_all (\<lambda>s. role s = Anchor) as"
    using generateAnchors_ok [OF assms(1)] by blast
  obtain bs t2 where b: "generateAccents ?w ?h ?c ?p t1 as ?sd = Inr (bs, t2)"
      "length bs = accentCount ?c" "list_all (\<lambda>s. role s = Accent) bs"
    using generateAccents_ok [OF assms(2)] by blast
  obtain cs t3 where c: "generateTexture ?w ?h ?c ?p t2 = Inr (cs, t3)"
      "length cs = (if density ?c < 40 then 0 else textureCount ?c)"
      "list_all (\<lambda>s. role s = Texture) cs"
    using generateTexture_ok by blast
  have g: "generateFreeForm cfg = Inr (as @ bs @ cs)"
    by (simp add: generateFreeForm_def Let_def a(1) b(1) c(1))
  show ?thesis
    unfolding g countRole_def
    by (simp add: count_single_role [OF a(3)] count_single_role [OF b(3)]
        count_single_role [OF c(3)] a(2) b(2) c(2))
qed

lemma anchorCount_values:
  "density c = 0 \<Longrightarrow> anchorCount c = 1"
  "density c = 100 \<Longrightarrow> anchorCount c = 4"
  "0 < anchorCount c"
  by (simp_all add: anchorCount_def)

lemma accentCount_values:
  "density c = 0 \<Longrightarrow> accentCount c = 0"
  "density c = 100 \<Longrightarrow> accentCount c = 15"
  by (simp_all add: accentCount_def)

lemma textureCount_values: "density c = 100 \<Longrightarrow> textureCount c = 50"
  by (simp add: textureCount_def)

lemma accentCount_pos: "0 < accentCount c \<longleftrightarrow> 20 / 3 \<le> density c"
proof -
  have "0 < accentCount c \<longleftrightarrow> 1 \<le> \<lfloor>(density c / 100) * 15\<rfloor>"
    by (simp add: accentCount_def)
  also have "\<dots> \<longleftrightarrow> 1 \<le> (density c / 100) * 15" by (simp add: le_floor_iff)
  also have "\<dots> \<longleftrightarrow> 20 / 3 \<le> density c" by (simp add: field_simps)
  finally show ?thesis .
qed

lemma textureCount_pos: "0 < textureCount c \<longleftrightarrow> 206 / 5 \<le> density c"
proof -
  have "0 < textureCount c \<longleftrightarrow> 1 \<le> \<lfloor>((density c - 40) / 60) * 50\<rfloor>"
    by (simp add: textureCount_def)
  also have "\<dots> \<longleftrightarrow> 1 \<le> ((density c - 40) / 60) * 50" by (simp add: le_floor_iff)
  also have "\<dots> \<longleftrightarrow> 206 / 5 \<le> density c" by (simp add: field_simps)
  finally show ?thesis .
qed

subsection \<open>Generator: text mode\<close>

lemma createShapeAtPoint_kind:
  "shapeType (kind (createShapeAtPoint x y sz st color rot np fa)) = st"
  by (cases st)
    (simp_all add: createShapeAtPoint_def createCircle_def createSemicircle_def
      createTriangle_def createRectangle_def createLine_def mkShape_def Let_def)

lemma createShapeAtPoint_rotation:
  assumes "st = semicircle \<or> st = triangle"
  shows "rotation (createShapeAtPoint x y sz st color rot np fa)
           = (case fa of Some a \<Rightarrow> a | None \<Rightarrow> rot)"
  using assms
  by (cases fa)
    (auto simp: createShapeAtPoint_def createSemicircle_def createTriangle_def mkShape_def Let_def)

lemma kind_withRole [simp]: "kind (withRole s r) = kind s"
  by (simp add: withRole_def)

lemma rotation_withRole [simp]: "rotation (withRole s r) = rotation s"
  by (simp add: withRole_def)

lemma cyclic_None_iff: "cyclic arr i = None \<longleftrightarrow> arr = []"
  by (simp add: cyclic_def)

text \<open>What the body of the text loop returns: a shape of the selected kind, tagged
  anchor, whose rotation for semicircles and triangles is the flow angle in drift mode and
  the jittered rotation otherwise; and the state three draws on.\<close>

lemma textStep_Inr:
  assumes "textStep cfg points sz co i t = Inr (v, t')"
  shows "t' = textStepState t \<and> role v = Anchor
       \<and> shapeType (kind v) = pathShape (controls cfg)
       \<and> (pathShape (controls cfg) = semicircle \<or> pathShape (controls cfg) = triangle \<longrightarrow>
            rotation v
              = (if animationMode (controls cfg) = Drift then flowAngle (controls cfg)
                 else fst (range (- 30) 30 (snd (gaussian (snd (gaussian t)))))
                        * (chaos (controls cfg) / 100)))"
proof -
  obtain g1 t1 where a: "gaussian t = (g1, t1)" by (cases "gaussian t")
  obtain g2 t2 where b: "gaussian t1 = (g2, t2)" by (cases "gaussian t1")
  obtain r t3 where c: "range (- 30) 30 t2 = (r, t3)" by (cases "range (- 30) 30 t2")
  obtain color where d: "varyColorOpt (cyclic (anchor (palette cfg)) i)
      (paletteVariation (controls cfg)) (seed cfg + int i) = Inr color"
    using assms by (cases "varyColorOpt (cyclic (anchor (palette cfg)) i)
      (paletteVariation (controls cfg)) (seed cfg + int i)") (simp_all add: textStep_def a b c)
  let ?fa = "if animationMode (controls cfg) = Drift then Some (flowAngle (controls cfg)) else None"
  define x where "x = jsAdd (Fin (pt_x (points ! i))) (jsMul g1 (Fin co))"
  define y where "y = jsAdd (Fin (pt_y (points ! i))) (jsMul g2 (Fin co))"
  define np where "np = (if Suc i < length points then Some (points ! Suc i) else None)"
  have v: "v = withRole
      (createShapeAtPoint x y sz (pathShape (controls cfg)) color
         (r * (chaos (controls cfg) / 100)) np ?fa) Anchor" and t': "t' = t3"
    using assms by (auto simp: textStep_def a b c d Let_def x_def y_def np_def)
  have "rotation v = (if animationMode (controls cfg) = Drift then flowAngle (controls cfg)
                      else r * (chaos (controls cfg) / 100))"
    if "pathShape (controls cfg) = semicircle \<or> pathShape (controls cfg) = triangle"
    unfolding v rotation_withRole createShapeAtPoint_rotation [OF that] by simp
  then show ?thesis
    by (simp add: v t' textStepState_def a b c createShapeAtPoint_kind)
qed

lemma createShapeAtPoint_position:
  "shape_x (createShapeAtPoint x y sz st color rot np fa) = x"
  "shape_y (createShapeAtPoint x y sz st color rot np fa) = y"
  by (cases st;
      simp add: createShapeAtPoint_def createCircle_def createSemicircle_def
        createTriangle_def createRectangle_def createLine_def mkShape_def Let_def)+

lemma position_withRole [simp]:
  "shape_x (withRole s r) = shape_x s" "shape_y (withRole s r) = shape_y s"
  by (simp_all add: withRole_def)

text \<open>The position the body of the text loop gives its shape: the path point plus the
  Gaussian sample times the chaos offset, in each axis.\<close>

lemma textStep_position:
  assumes "textStep cfg points sz co i t = Inr (v, t')"
  shows "shape_x v = jsAdd (Fin (pt_x (points ! i))) (jsMul (fst (gaussian t)) (Fin co))
       \<and> shape_y v = jsAdd (Fin (pt_y (points ! i)))
                        (jsMul (fst (gaussian (snd (gaussian t)))) (Fin co))"
proof -
  obtain g1 t1 where a: "gaussian t = (g1, t1)" by (cases "gaussian t")
  obtain g2 t2 where b: "gaussian t1 = (g2, t2)" by (cases "gaussian t1")
  obtain r t3 where c: "range (- 30) 30 t2 = (r, t3)" by (cases "range (- 30) 30 t2")
  obtain color where d: "varyColorOpt (cyclic (anchor (palette cfg)) i)
      (paletteVariation (controls cfg)) (seed cfg + int i) = Inr color"
    using assms by (cases "varyColorOpt (cyclic (anchor (palette cfg)) i)
      (paletteVariation (controls cfg)) (seed cfg + int i)") (simp_all add: textStep_def a b c)
  from assms show ?thesis
    by (auto simp: textStep_def a b c d Let_def createShapeAtPoint_position)
qed

lemma textStep_total:
  assumes "anchor (palette cfg) \<noteq> []"
  shows "\<exists>v t'. textStep cfg points sz co i t = Inr (v, t') \<and> role v = Anchor"
proof -
  obtain base where "cyclic (anchor (palette cfg)) i = Some base"
    using assms by (simp add: cyclic_def)
  then show ?thesis
    by (simp add: textStep_def Let_def varyColorOpt_def split: prod.splits)
qed

lemma textStep_Inl: "textStep cfg points sz co i t = Inl e \<Longrightarrow> anchor (palette cfg) = []"
  using textStep_total [of cfg points sz co i t] by auto

lemma loopM_nth:
  assumes "\<And>i t v t'. body i t = Inr (v, t') \<Longrightarrow> t' = f t \<and> Q t v"
  shows "loopM body is t = Inr (vs, t') \<Longrightarrow> \<forall>k < length vs. Q ((f ^^ k) t) (vs ! k)"
proof (induction "is" arbitrary: t vs t')
  case Nil
  then show ?case by simp
next
  case (Cons i "is")
  from Cons.prems obtain v t1 ws where
    b: "body i t = Inr (v, t1)" and l: "loopM body is t1 = Inr (ws, t')" and vs: "vs = v # ws"
    by (auto split: sum.splits prod.splits)
  from assms [OF b] have t1: "t1 = f t" and q: "Q t v" by simp_all
  from Cons.IH [OF l] have ih: "\<forall>k < length ws. Q ((f ^^ k) (f t)) (ws ! k)"
    by (simp add: t1)
  show ?case
  proof (intro allI impI)
    fix k
    assume k: "k < length vs"
    show "Q ((f ^^ k) t) (vs ! k)"
    proof (cases k)
      case 0
      then show ?thesis using q vs by simp
    next
      case (Suc j)
      then have "j < length ws" using k vs by simp
      then have "Q ((f ^^ j) (f t)) (ws ! j)" using ih by simp
      then show ?thesis using Suc vs by (simp add: funpow_swap1)
    qed
  qed
qed

lemma generateTextComposition_cases:
  obtains (empty) "generateTextComposition fp cfg = Inr []"
      "\<forall>str. text_in cfg = Some str \<and> str \<noteq> [] \<longrightarrow>
         fst (getTextPathPoints fp str (width cfg) (height cfg) (density (controls cfg))) = []"
  | (loop) str points sz co where
      "text_in cfg = Some str" "str \<noteq> []"
      "points = fst (getTextPathPoints fp str (width cfg) (height cfg) (density (controls cfg)))"
      "points \<noteq> []"
      "generateTextComposition fp cfg
         = (case loopM (textStep cfg points sz co) [0..<length points]
                   (createRandomUtils (seed cfg)) of
              Inl e \<Rightarrow> Inl e | Inr (shapes, t') \<Rightarrow> Inr shapes)"
proof (cases "text_in cfg")
  case None
  then have "generateTextComposition fp cfg = Inr []"
    by (simp add: generateTextComposition_def)
  then show ?thesis by (rule empty) (simp add: None)
next
  case (Some str)
  let ?points = "fst (getTextPathPoints fp str (width cfg) (height cfg) (density (controls cfg)))"
  show ?thesis
  proof (cases "str = [] \<or> ?points = []")
    case True
    then have "generateTextComposition fp cfg = Inr []"
      by (auto simp: generateTextComposition_def Let_def Some)
    then show ?thesis by (rule empty) (use True in \<open>auto simp: Some\<close>)
  next
    case False
    then have n: "str \<noteq> []" "?points \<noteq> []" by simp_all
    show ?thesis
      by (rule loop [OF Some n(1) refl n(2)])
        (simp add: generateTextComposition_def Let_def Some n)
  qed
qed

lemma generateTextComposition_Inl:
  assumes "generateTextComposition fp cfg = Inl e"
  shows "anchor (palette cfg) = []"
proof (cases rule: generateTextComposition_cases [of fp cfg])
  case empty
  with assms show ?thesis by simp
next
  case (loop str points sz co)
  with assms have "loopM (textStep cfg points sz co) [0..<length points]
      (createRandomUtils (seed cfg)) = Inl e"
    by (simp split: sum.splits prod.splits)
  then show ?thesis by (rule loopM_Inl [rotated]) (rule textStep_Inl)
qed

lemma generateTextComposition_loop:
  assumes "generateTextComposition fp cfg = Inr shapes" "shapes \<noteq> []"
  shows "\<exists>points sz co t'.
           loopM (textStep cfg points sz co) [0..<length points] (createRandomUtils (seed cfg))
             = Inr (shapes, t')"
proof (cases rule: generateTextComposition_cases [of fp cfg])
  case empty
  with assms show ?thesis by simp
next
  case (loop str points sz co)
  with assms(1) have "\<exists>t'. loopM (textStep cfg points sz co) [0..<length points]
      (createRandomUtils (seed cfg)) = Inr (shapes, t')"
    by (simp split: sum.splits prod.splits)
  then show ?thesis by blast
qed

lemma generateTextComposition_roles:
  assumes "generateTextComposition fp cfg = Inr shapes"
  shows "list_all (\<lambda>s. role s = Anchor) shapes"
proof (cases "shapes = []")
  case True
  then show ?thesis by simp
next
  case False
  from generateTextComposition_loop [OF assms False] obtain points sz co t' where
    l: "loopM (textStep cfg points sz co) [0..<length points] (createRandomUtils (seed cfg))
       = Inr (shapes, t')" by blast
  have "role v = Anchor" if "textStep cfg points sz co i t = Inr (v, t1)" for i t v t1
    using textStep_Inr [OF that] by simp
  from loopM_sound [of "textStep cfg points sz co" "\<lambda>s. role s = Anchor", OF this l]
  show ?thesis by simp
qed

lemma generateTextComposition_rotations:
  assumes "generateTextComposition fp cfg = Inr shapes"
    and "pathShape (controls cfg) = semicircle \<or> pathShape (controls cfg) = triangle"
  shows "\<forall>k < length shapes.
           shapeType (kind (shapes ! k)) = pathShape (controls cfg)
         \<and> rotation (shapes ! k)
             = (if animationMode (controls cfg) = Drift then flowAngle (controls cfg)
                else rotationJitter cfg k)"
proof (cases "shapes = []")
  case True
  then show ?thesis by simp
next
  case False
  from generateTextComposition_loop [OF assms(1) False] obtain points sz co t' where
    l: "loopM (textStep cfg points sz co) [0..<length points] (createRandomUtils (seed cfg))
       = Inr (shapes, t')" by blast
  let ?Q = "\<lambda>t v. shapeType (kind v) = pathShape (controls cfg)
       \<and> rotation v = (if animationMode (controls cfg) = Drift then flowAngle (controls cfg)
                       else fst (range (- 30) 30 (snd (gaussian (snd (gaussian t)))))
                              * (chaos (controls cfg) / 100))"
  have step: "t1 = textStepState t \<and> ?Q t v" if "textStep cfg points sz co i t = Inr (v, t1)"
    for i t v t1
    using textStep_Inr [OF that] assms(2) by simp
  from loopM_nth [of "textStep cfg points sz co" textStepState ?Q, OF step l]
  show ?thesis by (simp add: rotationJitter_def)
qed

lemma generateTextComposition_ok:
  assumes "anchor (palette cfg) \<noteq> []" "text_in cfg = Some txt"
  shows "\<exists>shapes. generateTextComposition fp cfg = Inr shapes
           \<and> (txt \<noteq> [] \<longrightarrow> length shapes
               = length (fst (getTextPathPoints fp txt (width cfg) (height cfg)
                                (density (controls cfg)))))"
proof (cases rule: generateTextComposition_cases [of fp cfg])
  case empty
  then show ?thesis using assms(2) by simp
next
  case (loop str points sz co)
  have "\<exists>vs t'. loopM (textStep cfg points sz co) [0..<length points]
          (createRandomUtils (seed cfg)) = Inr (vs, t')
          \<and> length vs = length [0..<length points] \<and> list_all (\<lambda>s. role s = Anchor) vs"
    by (intro loopM_spec textStep_total assms(1))
  then obtain vs t' where "loopM (textStep cfg points sz co) [0..<length points]
          (createRandomUtils (seed cfg)) = Inr (vs, t')" "length vs = length points"
    by auto
  then show ?thesis using loop assms(2) by simp
qed

subsection \<open>Generator: the stream from state zero\<close>

text \<open>Zero is a fixed point of the stream's step, so from state zero every draw is 0:
  the Gaussian sample is \<open>Math.sqrt(-2 * Math.log(0)) * Math.cos(0)\<close>, which is
  Infinity, and Infinity times a chaos offset of 0 is NaN.\<close>

lemma createRandom_zero: "createRandom 2463401483 = 0"
  by (simp add: createRandom_def)

lemma nextState_zero: "nextState 0 = 0"
  by (simp add: nextState_def imul_def)

lemma random_zero: "random 0 = (0, 0)"
  by (simp add: random_def nextState_zero)

lemma gaussian_zero: "gaussian 0 = (PosInf, 0)"
  by (simp add: gaussian_def random_zero jsLog_def jsSqrt_def infTimes_def)

lemma textStepState_zero: "textStepState 0 = 0"
  by (simp add: textStepState_def gaussian_zero range_def random_zero)

lemma textStepState_funpow_zero: "(textStepState ^^ k) 0 = 0"
  by (induction k) (simp_all add: textStepState_zero)

lemma textStep_zero:
  assumes "textStep cfg points sz 0 i 0 = Inr (v, t')"
  shows "shape_x v = NaN \<and> shape_y v = NaN"
  using textStep_position [OF assms] by (simp add: gaussian_zero infTimes_def)

lemma generateTextComposition_zero:
  assumes "generateTextComposition fp cfg = Inr shapes"
    and "chaos (controls cfg) = 0" "createRandomUtils (seed cfg) = 0"
  shows "list_all (\<lambda>s. shape_x s = NaN \<and> shape_y s = NaN) shapes"
proof (cases "shapes = []")
  case True
  then show ?thesis by simp
next
  case False
  from assms(1) False obtain points sz t' where
    l: "loopM (textStep cfg points sz 0) [0..<length points] 0 = Inr (shapes, t')"
    by (auto simp: generateTextComposition_def Let_def assms(2,3)
        split: option.splits if_splits sum.splits prod.splits)
  let ?Q = "\<lambda>t v. t = (0 :: rng) \<longrightarrow> shape_x v = NaN \<and> shape_y v = NaN"
  have step: "t1 = textStepState t \<and> ?Q t v" if "textStep cfg points sz 0 i t = Inr (v, t1)"
    for i t v t1
    using textStep_Inr [OF that] textStep_zero [of cfg points sz i v t1] that by auto
  from loopM_nth [of "textStep cfg points sz 0" textStepState ?Q, OF step l]
  show ?thesis by (simp add: textStepState_funpow_zero list_all_length)
qed

lemma animateAll_positions:
  "map (\<lambda>s. (shape_x s, shape_y s)) (animateAll xs ch mo st s)
     = map (\<lambda>p. (shape_x (snd p), shape_y (snd p))) xs"
proof (induction xs arbitrary: s)
  case Nil
  show ?case by simp
next
  case (Cons x xs)
  obtain i shape where x: "x = (i, shape)" by (cases x)
  obtain a s' where a: "animateShape shape i ch mo st s = (a, s')"
    by (cases "animateShape shape i ch mo st s")
  have "shape_x a = shape_x shape" "shape_y a = shape_y shape"
    using animateShape_position [of shape i ch mo st s] by (simp_all add: a)
  then show ?case using Cons.IH [of s'] by (simp add: x a)
qed

lemma addAnimationProperties_positions:
  "map (\<lambda>s. (shape_x s, shape_y s)) (addAnimationProperties base ch mo sd sm)
     = map (\<lambda>s. (shape_x s, shape_y s)) base"
proof -
  have "map (\<lambda>p. (shape_x (snd p), shape_y (snd p))) (enumerate 0 base)
          = map (\<lambda>s. (shape_x s, shape_y s)) (map snd (enumerate 0 base))"
    by (simp only: map_map o_def)
  then show ?thesis
    unfolding addAnimationProperties_def animateAll_positions by simp
qed

subsection \<open>White-space text\<close>

lemma toUpperChar_whiteSpace: "isWhiteSpace ch \<Longrightarrow> toUpperChar ch = ch"
  by (auto simp: isWhiteSpace_def toUpperChar_def)

lemma toUpperCase_whiteSpace: "list_all isWhiteSpace str \<Longrightarrow> toUpperCase str = str"
  by (simp add: toUpperCase_def list_all_iff toUpperChar_whiteSpace map_idI)

lemma trim_whiteSpace: "list_all isWhiteSpace str \<Longrightarrow> trim str = []"
proof -
  assume "list_all isWhiteSpace str"
  then have d: "dropWhile isWhiteSpace str = []" by (simp add: list_all_iff)
  show ?thesis unfolding trim_def d by simp
qed

lemma textMode_whiteSpace:
  "(case txt_opt of None \<Rightarrow> True | Some str \<Rightarrow> list_all isWhiteSpace str) \<Longrightarrow> \<not> textMode txt_opt"
  by (cases txt_opt) (simp_all add: textMode_def trim_whiteSpace)

lemma getTextPathPoints_empty: "getTextPathPoints fp [] cw chh d = ([], [])"
  by (simp add: getTextPathPoints_def toUpperCase_def)

lemma letterPoints_no_glyph:
  "fp ch = None \<or> fp ch = Some [] \<Longrightarrow> letterPoints fp rate lw lh sy lx ch = []"
  by (auto simp: letterPoints_def)

lemma getTextPathPoints_whiteSpace:
  assumes "list_all (\<lambda>ch. isWhiteSpace ch \<and> (fp ch = None \<or> fp ch = Some [])) str"
  shows "fst (getTextPathPoints fp str cw chh d) = []
       \<and> length (snd (getTextPathPoints fp str cw chh d)) = length str"
proof -
  from assms have ws: "list_all isWhiteSpace str"
    and ng: "\<And>ch. ch \<in> set str \<Longrightarrow> fp ch = None \<or> fp ch = Some []"
    by (simp_all add: list_all_iff)
  have up: "toUpperCase str = str" by (rule toUpperCase_whiteSpace [OF ws])
  have "letterPoints fp rate lw lh sy lx (str ! i) = []" if "i < length str"
    for rate lw lh sy lx i
    using that ng [of "str ! i"] by (simp add: letterPoints_no_glyph)
  then show ?thesis
    by (simp add: getTextPathPoints_def up Let_def)
qed

subsection \<open>The sample data\<close>

lemma aurora_lists: "anchor aurora \<noteq> []" "accent aurora \<noteq> []"
  by (simp_all add: aurora_def)

lemma squareConfig_fields:
  "width (squareConfig d str) = 800" "height (squareConfig d str) = 800"
  "palette (squareConfig d str) = aurora" "seed (squareConfig d str) = 1"
  "text_in (squareConfig d str) = str"
  "density (controls (squareConfig d str)) = d"
  by (simp_all add: squareConfig_def)

lemma driftConfig_fields:
  "width (driftConfig st) = 800" "height (driftConfig st) = 800"
  "palette (driftConfig st) = aurora" "text_in (driftConfig st) = Some ''I''"
  "density (controls (driftConfig st)) = 100" "pathShape (controls (driftConfig st)) = st"
  "animationMode (controls (driftConfig st)) = Drift" "flowAngle (controls (driftConfig st)) = 45"
  by (simp_all add: driftConfig_def)

lemma textMode_I: "textMode (Some ''I'')"
  by (simp add: textMode_def trim_def isWhiteSpace_def)

lemma strokeTable_points:
  "length (fst (getTextPathPoints strokeTable ''I'' 800 800 100)) = 2"
  by (simp add: getTextPathPoints_def toUpperCase_def toUpperChar_def letterPoints_def
      strokeTable_def sampleRate_def Let_def)

lemma zeroStateConfig_fields:
  "width zeroStateConfig = 800" "height zeroStateConfig = 800"
  "palette zeroStateConfig = aurora" "seed zeroStateConfig = 2463401483"
  "text_in zeroStateConfig = Some ''I''"
  "density (controls zeroStateConfig) = 100" "chaos (controls zeroStateConfig) = 0"
  by (simp_all add: zeroStateConfig_def)

subsection \<open>Counts and roles\<close>

lemma freeForm_composition:
  "\<not> textMode (text_in cfg) \<Longrightarrow> generateComposition fp cfg = generateFreeForm cfg"
  by (simp add: generateComposition_def)

text \<open>
  Claim C4.  In free-form mode, for every width, height, seed and palette (with a
  non-empty anchor list, and a non-empty accent list where accents are generated; an
  empty list makes the source throw): with density 0 the generator returns exactly 1
  anchor, 0 accents and 0 texture shapes; with density 100 exactly 4 anchors, 15 accents
  and 50 texture shapes; and for every density below 40 texture generation is skipped
  entirely: it returns no shape and draws nothing from the generator.
\<close>

theorem count_formulas:
  assumes "\<not> textMode (text_in cfg)" "anchor (palette cfg) \<noteq> []"
  shows "(density (controls cfg) = 0 \<longrightarrow>
            countRole Anchor (generateComposition fp cfg) = Some 1
          \<and> countRole Accent (generateComposition fp cfg) = Some 0
          \<and> countRole Texture (generateComposition fp cfg) = Some 0)
       \<and> (density (controls cfg) = 100 \<and> accent (palette cfg) \<noteq> [] \<longrightarrow>
            countRole Anchor (generateComposition fp cfg) = Some 4
          \<and> countRole Accent (generateComposition fp cfg) = Some 15
          \<and> countRole Texture (generateComposition fp cfg) = Some 50)
       \<and> (density (controls cfg) < 40 \<longrightarrow>
            generateTexture (width cfg) (height cfg) (controls cfg) (palette cfg) t = Inr ([], t))"
proof (intro conjI impI)
  assume d: "density (controls cfg) = 0"
  then have "accentCount (controls cfg) = 0 \<or> accent (palette cfg) \<noteq> []"
    by (simp add: accentCount_values)
  from freeForm_counts [OF assms(2) this] d
  show "countRole Anchor (generateComposition fp cfg) = Some 1"
    and "countRole Accent (generateComposition fp cfg) = Some 0"
    and "countRole Texture (generateComposition fp cfg) = Some 0"
    by (simp_all add: freeForm_composition [OF assms(1)] anchorCount_values accentCount_values)
next
  assume d: "density (controls cfg) = 100 \<and> accent (palette cfg) \<noteq> []"
  then have "accentCount (controls cfg) = 0 \<or> accent (palette cfg) \<noteq> []" by simp
  from freeForm_counts [OF assms(2) this] d
  show "countRole Anchor (generateComposition fp cfg) = Some 4"
    and "countRole Accent (generateComposition fp cfg) = Some 15"
    and "countRole Texture (generateComposition fp cfg) = Some 50"
    by (simp_all add: freeForm_composition [OF assms(1)] anchorCount_values accentCount_values
        textureCount_values)
next
  assume "density (controls cfg) < 40"
  then show "generateTexture (width cfg) (height cfg) (controls cfg) (palette cfg) t = Inr ([], t)"
    by (rule generateTexture_skipped)
qed

theorem count_formulas_witness:
  "\<not> textMode (text_in (squareConfig 0 None)) \<and> anchor (palette (squareConfig 0 None)) \<noteq> []
   \<and> density (controls (squareConfig 0 None)) = 0
   \<and> countRole Anchor (generateComposition spaceTable (squareConfig 0 None)) = Some 1
   \<and> countRole Accent (generateComposition spaceTable (squareConfig 0 None)) = Some 0
   \<and> density (controls (squareConfig 100 None)) = 100
   \<and> accent (palette (squareConfig 100 None)) \<noteq> []
   \<and> countRole Accent (generateComposition spaceTable (squareConfig 100 None)) = Some 15
   \<and> countRole Texture (generateComposition spaceTable (squareConfig 100 None)) = Some 50
   \<and> density (controls (squareConfig 20 None)) < 40
   \<and> generateTexture 800 800 (controls (squareConfig 20 None)) aurora 0 = Inr ([], 0)"
proof -
  have m: "\<not> textMode (text_in (squareConfig d None))" for d
    by (simp add: squareConfig_fields textMode_def)
  have a: "anchor (palette (squareConfig d None)) \<noteq> []" for d
    by (simp add: squareConfig_fields aurora_lists)
  from count_formulas [OF m a, of 0 spaceTable 0] count_formulas [OF m a, of 100 spaceTable 0]
    count_formulas [OF m a, of 20 spaceTable 0] m a
  show ?thesis by (simp add: squareConfig_fields aurora_lists)
qed

text \<open>
  Claim C2, as the code has it.  In text mode every shape \<open>generateComposition\<close> returns
  has role anchor (and it throws only on an empty anchor list).  In free-form mode, with
  non-empty anchor and accent lists, anchors are always present, accents are present
  exactly from density \<open>20/3\<close> on, and texture shapes exactly from density \<open>41.2\<close> on (the
  texture count \<open>floor(((density - 40) / 60) * 50)\<close> is 0 at densities 40 and 41): all
  three roles are present exactly when density is at least 41.2, and below that, in
  particular for density below 40, only anchor and accent roles are produced.
\<close>

theorem roles_by_mode:
  "(textMode (text_in cfg) \<longrightarrow>
      (case generateComposition fp cfg of
         Inr shapes \<Rightarrow> list_all (\<lambda>s. role s = Anchor) shapes
       | Inl e \<Rightarrow> anchor (palette cfg) = []))
   \<and> (\<not> textMode (text_in cfg) \<and> anchor (palette cfg) \<noteq> [] \<and> accent (palette cfg) \<noteq> [] \<longrightarrow>
        (\<exists>na nb nt.
            countRole Anchor (generateComposition fp cfg) = Some na
          \<and> countRole Accent (generateComposition fp cfg) = Some nb
          \<and> countRole Texture (generateComposition fp cfg) = Some nt
          \<and> 0 < na
          \<and> (0 < nb \<longleftrightarrow> 20 / 3 \<le> density (controls cfg))
          \<and> (0 < nt \<longleftrightarrow> 206 / 5 \<le> density (controls cfg))))"
proof (intro conjI impI)
  assume "textMode (text_in cfg)"
  then have g: "generateComposition fp cfg = generateTextComposition fp cfg"
    by (simp add: generateComposition_def)
  show "case generateComposition fp cfg of
          Inr shapes \<Rightarrow> list_all (\<lambda>s. role s = Anchor) shapes
        | Inl e \<Rightarrow> anchor (palette cfg) = []"
    unfolding g
    by (cases "generateTextComposition fp cfg")
      (simp_all add: generateTextComposition_Inl generateTextComposition_roles)
next
  assume a: "\<not> textMode (text_in cfg) \<and> anchor (palette cfg) \<noteq> [] \<and> accent (palette cfg) \<noteq> []"
  then have "accentCount (controls cfg) = 0 \<or> accent (palette cfg) \<noteq> []" by simp
  with a have c: "countRole Anchor (generateComposition fp cfg) = Some (anchorCount (controls cfg))"
      "countRole Accent (generateComposition fp cfg) = Some (accentCount (controls cfg))"
      "countRole Texture (generateComposition fp cfg)
         = Some (if density (controls cfg) < 40 then 0 else textureCount (controls cfg))"
    using freeForm_counts [of cfg] by (simp_all add: freeForm_composition)
  have "0 < (if density (controls cfg) < 40 then 0 else textureCount (controls cfg))
          \<longleftrightarrow> 206 / 5 \<le> density (controls cfg)"
    using textureCount_pos [of "controls cfg"] by auto
  then show "\<exists>na nb nt.
            countRole Anchor (generateComposition fp cfg) = Some na
          \<and> countRole Accent (generateComposition fp cfg) = Some nb
          \<and> countRole Texture (generateComposition fp cfg) = Some nt
          \<and> 0 < na
          \<and> (0 < nb \<longleftrightarrow> 20 / 3 \<le> density (controls cfg))
          \<and> (0 < nt \<longleftrightarrow> 206 / 5 \<le> density (controls cfg))"
    unfolding c using anchorCount_values(3) [of "controls cfg"] accentCount_pos [of "controls cfg"]
    by blast
qed

theorem roles_by_mode_witness:
  "\<not> textMode (text_in (squareConfig 60 None)) \<and> anchor (palette (squareConfig 60 None)) \<noteq> []
   \<and> accent (palette (squareConfig 60 None)) \<noteq> []
   \<and> countRole Accent (generateComposition spaceTable (squareConfig 60 None)) \<noteq> Some 0
   \<and> countRole Texture (generateComposition spaceTable (squareConfig 60 None)) \<noteq> Some 0
   \<and> textMode (text_in (driftConfig circle))
   \<and> countRole Accent (generateComposition strokeTable (driftConfig circle)) = Some 0
   \<and> countRole Anchor (generateComposition strokeTable (driftConfig circle)) = Some 2"
proof -
  have m: "\<not> textMode (text_in (squareConfig 60 None))"
    by (simp add: squareConfig_fields textMode_def)
  have p: "anchor (palette (squareConfig 60 None)) \<noteq> []" "accent (palette (squareConfig 60 None)) \<noteq> []"
    by (simp_all add: squareConfig_fields aurora_lists)
  have f: "countRole Accent (generateComposition spaceTable (squareConfig 60 None)) \<noteq> Some 0
     \<and> countRole Texture (generateComposition spaceTable (squareConfig 60 None)) \<noteq> Some 0"
    using roles_by_mode [of "squareConfig 60 None" spaceTable] m p
    by (auto simp: squareConfig_fields)
  have t: "textMode (text_in (driftConfig circle))"
    by (simp add: driftConfig_fields textMode_I)
  obtain shapes where s: "generateTextComposition strokeTable (driftConfig circle) = Inr shapes"
      "length shapes = 2"
    using generateTextComposition_ok [of "driftConfig circle" "''I''" strokeTable]
    by (auto simp: driftConfig_fields aurora_lists strokeTable_points)
  then have g: "generateComposition strokeTable (driftConfig circle) = Inr shapes"
    using t by (simp add: generateComposition_def)
  from roles_by_mode [of "driftConfig circle" strokeTable] t
  have "list_all (\<lambda>s. role s = Anchor) shapes" by (simp add: g)
  then have "countRole Accent (generateComposition strokeTable (driftConfig circle)) = Some 0
     \<and> countRole Anchor (generateComposition strokeTable (driftConfig circle)) = Some 2"
    by (simp add: g countRole_def count_single_role s(2))
  with m p f t show ?thesis by simp
qed

text \<open>As stated (all three roles for every density from 40 on) the claim fails at density
  40, where free-form generation returns no texture shape.\<close>

theorem density_forty_no_texture:
  "\<not> textMode (text_in (squareConfig 40 None)) \<and> 40 \<le> density (controls (squareConfig 40 None))
   \<and> countRole Texture (generateComposition spaceTable (squareConfig 40 None)) = Some 0"
proof -
  have m: "\<not> textMode (text_in (squareConfig 40 None))"
    by (simp add: squareConfig_fields textMode_def)
  have "countRole Texture (generateFreeForm (squareConfig 40 None))
          = Some (if density (controls (squareConfig 40 None)) < 40 then 0
                  else textureCount (controls (squareConfig 40 None)))"
    using freeForm_counts [of "squareConfig 40 None"]
    by (simp add: squareConfig_fields aurora_lists)
  then show ?thesis
    using m by (simp add: freeForm_composition squareConfig_fields textureCount_def)
qed

text \<open>
  Claim C3, as the code has it.  For the empty text \<open>getTextPathPoints\<close> returns exactly
  \<open>{points: [], letterBounds: []}\<close>.  For a text of white-space characters, none of which
  has glyph points in the table (the script's table has the entry \<open>[]\<close> for the space and
  no entry for other white space), it returns no points and one letter bound per
  character.  \<open>generateComposition\<close> with an absent, empty or white-space-only text does
  not take the text branch at all: its result is the free-form composition, which has at
  least one anchor whenever it returns.
\<close>

theorem whitespace_text:
  "getTextPathPoints fp [] cw chh d = ([], [])
   \<and> (list_all (\<lambda>ch. isWhiteSpace ch \<and> (fp ch = None \<or> fp ch = Some [])) str \<longrightarrow>
        fst (getTextPathPoints fp str cw chh d) = []
      \<and> length (snd (getTextPathPoints fp str cw chh d)) = length str)
   \<and> ((case text_in cfg of None \<Rightarrow> True | Some s \<Rightarrow> list_all isWhiteSpace s) \<longrightarrow>
        generateComposition fp cfg = generateFreeForm cfg
      \<and> (anchor (palette cfg) \<noteq> [] \<and> accent (palette cfg) \<noteq> [] \<longrightarrow>
           countRole Anchor (generateComposition fp cfg) = Some (anchorCount (controls cfg))
         \<and> 0 < anchorCount (controls cfg)))"
proof (intro conjI impI)
  show "getTextPathPoints fp [] cw chh d = ([], [])" by (rule getTextPathPoints_empty)
next
  assume "list_all (\<lambda>ch. isWhiteSpace ch \<and> (fp ch = None \<or> fp ch = Some [])) str"
  from getTextPathPoints_whiteSpace [OF this]
  show "fst (getTextPathPoints fp str cw chh d) = []"
    and "length (snd (getTextPathPoints fp str cw chh d)) = length str" by simp_all
next
  assume w: "case text_in cfg of None \<Rightarrow> True | Some s \<Rightarrow> list_all isWhiteSpace s"
  then show g: "generateComposition fp cfg = generateFreeForm cfg"
    by (intro freeForm_composition textMode_whiteSpace)
  assume "anchor (palette cfg) \<noteq> [] \<and> accent (palette cfg) \<noteq> []"
  then show "countRole Anchor (generateComposition fp cfg) = Some (anchorCount (controls cfg))"
    unfolding g using freeForm_counts [of cfg] by simp
  show "0 < anchorCount (controls cfg)" by (rule anchorCount_values(3))
qed

theorem whitespace_text_witness:
  "list_all (\<lambda>ch. isWhiteSpace ch \<and> (spaceTable ch = None \<or> spaceTable ch = Some [])) ''  ''
   \<and> fst (getTextPathPoints spaceTable ''  '' 800 800 60) = []
   \<and> length (snd (getTextPathPoints spaceTable ''  '' 800 800 60)) = 2
   \<and> list_all isWhiteSpace ''  ''
   \<and> anchor (palette (squareConfig 60 (Some ''  ''))) \<noteq> []
   \<and> accent (palette (squareConfig 60 (Some ''  ''))) \<noteq> []
   \<and> countRole Anchor (generateComposition spaceTable (squareConfig 60 (Some ''  ''))) = Some 2"
proof -
  have w: "list_all (\<lambda>ch. isWhiteSpace ch \<and> (spaceTable ch = None \<or> spaceTable ch = Some [])) ''  ''"
    by (simp add: isWhiteSpace_def spaceTable_def)
  have v: "list_all isWhiteSpace ''  ''" by (simp add: isWhiteSpace_def)
  have n: "anchorCount (controls (squareConfig 60 (Some ''  ''))) = 2"
    by (simp add: anchorCount_def squareConfig_fields)
  have p: "anchor (palette (squareConfig 60 (Some ''  ''))) \<noteq> []"
      "accent (palette (squareConfig 60 (Some ''  ''))) \<noteq> []"
    by (simp_all add: squareConfig_fields aurora_lists)
  have t: "case text_in (squareConfig 60 (Some ''  '')) of None \<Rightarrow> True
           | Some s \<Rightarrow> list_all isWhiteSpace s"
    using v by (simp add: squareConfig_fields)
  from whitespace_text [of spaceTable 800 800 60 "''  ''" "squareConfig 60 (Some ''  '')"] w t p
  have "fst (getTextPathPoints spaceTable ''  '' 800 800 60) = []"
    and "length (snd (getTextPathPoints spaceTable ''  '' 800 800 60)) = length ''  ''"
    and "countRole Anchor (generateComposition spaceTable (squareConfig 60 (Some ''  '')))
           = Some (anchorCount (controls (squareConfig 60 (Some ''  ''))))"
    by blast+
  with w v p n show ?thesis by simp
qed

text \<open>As stated the claim fails for the one-space text: \<open>getTextPathPoints\<close> returns one
  letter bound, and \<open>generateComposition\<close> falls through to free-form generation, which
  returns two anchors at density 60.\<close>

theorem whitespace_falls_back_to_free_form:
  "list_all isWhiteSpace '' ''
   \<and> snd (getTextPathPoints spaceTable '' '' 800 800 60) \<noteq> []
   \<and> countRole Anchor (generateComposition spaceTable (squareConfig 60 (Some '' ''))) = Some 2"
proof -
  have v: "list_all isWhiteSpace '' ''" by (simp add: isWhiteSpace_def)
  have "length (snd (getTextPathPoints spaceTable '' '' 800 800 60)) = length '' ''"
    using getTextPathPoints_whiteSpace [of spaceTable "'' ''" 800 800 60]
    by (simp add: isWhiteSpace_def spaceTable_def)
  then have b: "snd (getTextPathPoints spaceTable '' '' 800 800 60) \<noteq> []" by auto
  have "\<not> textMode (text_in (squareConfig 60 (Some '' '')))"
    using textMode_whiteSpace [of "Some '' ''"] v by (simp add: squareConfig_fields)
  then have g: "generateComposition spaceTable (squareConfig 60 (Some '' ''))
               = generateFreeForm (squareConfig 60 (Some '' ''))"
    by (rule freeForm_composition)
  have "countRole Anchor (generateFreeForm (squareConfig 60 (Some '' '')))
          = Some (anchorCount (controls (squareConfig 60 (Some '' ''))))"
    using freeForm_counts [of "squareConfig 60 (Some '' '')"]
    by (simp add: squareConfig_fields aurora_lists)
  then have "countRole Anchor (generateComposition spaceTable (squareConfig 60 (Some '' ''))) = Some 2"
    by (simp add: g anchorCount_def squareConfig_fields)
  with v b show ?thesis by simp
qed

text \<open>
  Claim C10.  In text mode, when the selected path shape is semicircle or triangle,
  every shape \<open>generateComposition\<close> returns is of that kind, and its rotation is the flow
  angle when the animation mode is "drift" (the jittered rotation is discarded) and the
  chaos-jittered rotation \<open>rng.range(-30, 30) * (chaos / 100)\<close> drawn for its point
  otherwise.  At the constructor: with a flow angle \<open>createShapeAtPoint\<close> gives semicircles
  and triangles the flow angle as rotation, without one the rotation passed in.
\<close>

theorem text_flow_orientation:
  assumes "generateComposition fp cfg = Inr shapes" "textMode (text_in cfg)"
    and "pathShape (controls cfg) = semicircle \<or> pathShape (controls cfg) = triangle"
  shows "(\<forall>k < length shapes.
            shapeType (kind (shapes ! k)) = pathShape (controls cfg)
          \<and> rotation (shapes ! k)
              = (if animationMode (controls cfg) = Drift then flowAngle (controls cfg)
                 else rotationJitter cfg k))
       \<and> rotation (createShapeAtPoint x y sz (pathShape (controls cfg)) color rot np (Some a)) = a
       \<and> rotation (createShapeAtPoint x y sz (pathShape (controls cfg)) color rot np None) = rot"
proof -
  from assms(1,2) have "generateTextComposition fp cfg = Inr shapes"
    by (simp add: generateComposition_def)
  from generateTextComposition_rotations [OF this assms(3)] show ?thesis
    by (simp add: createShapeAtPoint_rotation [OF assms(3)])
qed

theorem text_flow_orientation_witness:
  "textMode (text_in (driftConfig semicircle))
   \<and> pathShape (controls (driftConfig semicircle)) = semicircle
   \<and> animationMode (controls (driftConfig semicircle)) = Drift
   \<and> rotationsOf (generateComposition strokeTable (driftConfig semicircle)) = Some [45, 45]"
proof -
  have t: "textMode (text_in (driftConfig semicircle))"
    by (simp add: driftConfig_fields textMode_I)
  obtain shapes where s: "generateTextComposition strokeTable (driftConfig semicircle) = Inr shapes"
      "length shapes = 2"
    using generateTextComposition_ok [of "driftConfig semicircle" "''I''" strokeTable]
    by (auto simp: driftConfig_fields aurora_lists strokeTable_points)
  then have g: "generateComposition strokeTable (driftConfig semicircle) = Inr shapes"
    using t by (simp add: generateComposition_def)
  obtain s0 s1 where l: "shapes = [s0, s1]"
    using s(2) by (auto simp: numeral_eq_Suc length_Suc_conv)
  from text_flow_orientation [OF g t, of "Fin 0" "Fin 0" 0 "[]" 0 None 0]
  have "\<forall>k < length shapes. rotation (shapes ! k) = 45"
    by (simp add: driftConfig_fields)
  then have "rotation s0 = 45" "rotation s1 = 45"
    unfolding l by (auto simp: nth_Cons')
  then show ?thesis
    using t by (simp add: g l rotationsOf_def driftConfig_fields)
qed

subsection \<open>A position that is not a number\<close>

text \<open>
  Claim C6 says that after each call of \<open>updateAnimatedShapes\<close> every shape's stored
  position lies in the box inset by 50 from each canvas edge, for width and height at
  least 100.  With seed 2463401483, chaos 0 and the text "I" on the 800 by 800 canvas
  the generator starts in state zero, its Gaussian sample is Infinity, the chaos offset
  \<open>Infinity * 0\<close> is NaN and both shapes are created at position (NaN, NaN).  After the
  first animation frame they are still there and not in the box: both comparisons of the
  bounce are false on NaN, so it neither clamps the position nor negates the velocity.
  For positions that are numbers the bounce does what the claim says
  (\<open>reflection_of_numbers\<close>).
\<close>

theorem nan_position_stays_outside_box:
  "(100 :: real) \<le> width zeroStateConfig \<and> (100 :: real) \<le> height zeroStateConfig
   \<and> createRandomUtils (seed zeroStateConfig) = 0
   \<and> gaussian 0 = (PosInf, 0)
   \<and> positionsOf (canvasShapes strokeTable zeroStateConfig) = Some [(NaN, NaN), (NaN, NaN)]
   \<and> positionsOf (canvasFrame strokeTable zeroStateConfig 16) = Some [(NaN, NaN), (NaN, NaN)]
   \<and> \<not> allInBox 800 800 (canvasFrame strokeTable zeroStateConfig 16)"
proof -
  let ?pos = "\<lambda>s :: AnimatedShape. (shape_x s, shape_y s)"
  have z: "createRandomUtils (seed zeroStateConfig) = 0"
    by (simp add: createRandomUtils_def zeroStateConfig_fields createRandom_zero)
  have t: "textMode (text_in zeroStateConfig)"
    by (simp add: zeroStateConfig_fields textMode_I)
  obtain shapes where s: "generateTextComposition strokeTable zeroStateConfig = Inr shapes"
      "length shapes = 2"
    using generateTextComposition_ok [of zeroStateConfig "''I''" strokeTable]
    by (auto simp: zeroStateConfig_fields aurora_lists strokeTable_points)
  obtain s0 s1 where l: "shapes = [s0, s1]"
    using s(2) by (auto simp: numeral_eq_Suc length_Suc_conv)
  from generateTextComposition_zero [OF s(1) zeroStateConfig_fields(7) z]
  have n: "map (\<lambda>s. (shape_x s, shape_y s)) shapes = [(NaN, NaN), (NaN, NaN)]"
    by (simp add: l)
  have g: "generateComposition strokeTable zeroStateConfig = Inr shapes"
    using t s(1) by (simp add: generateComposition_def)
  define anim where "anim = addAnimationProperties shapes (chaos (controls zeroStateConfig))
      (motion (controls zeroStateConfig)) (seed zeroStateConfig)
      (JSString (modeString (animationMode (controls zeroStateConfig))))"
  have c: "canvasShapes strokeTable zeroStateConfig = Inr anim"
    by (simp add: canvasShapes_def g anim_def)
  have a: "map ?pos anim = [(NaN, NaN), (NaN, NaN)]"
    unfolding anim_def addAnimationProperties_positions by (rule n)
  then obtain a0 a1 where al: "anim = [a0, a1]" by auto
  from a have an: "shape_x a0 = NaN" "shape_y a0 = NaN" "shape_x a1 = NaN" "shape_y a1 = NaN"
    by (simp_all add: al)
  have f: "canvasFrame strokeTable zeroStateConfig 16
             = Inr [updateShape 800 800 (16 * 0.06) a0, updateShape 800 800 (16 * 0.06) a1]"
    by (simp add: canvasFrame_def c al updateAnimatedShapes_def zeroStateConfig_fields Let_def)
  have p: "positionsOf (canvasFrame strokeTable zeroStateConfig 16) = Some [(NaN, NaN), (NaN, NaN)]"
    unfolding f by (simp add: positionsOf_def updateShape_NaN an)
  have b: "\<not> allInBox 800 800 (canvasFrame strokeTable zeroStateConfig 16)"
    unfolding f by (simp add: allInBox_def inBox_def updateShape_NaN an)
  have q: "positionsOf (canvasShapes strokeTable zeroStateConfig) = Some [(NaN, NaN), (NaN, NaN)]"
    by (simp add: c positionsOf_def a)
  show ?thesis
    using z p b q by (simp add: zeroStateConfig_fields gaussian_zero)
qed

end
